theory Spec2Isabelle
  imports Main "HOL-Library.Word"
begin

unbundle bit_operations_syntax

text \<open>
  The passwordless authentication of psz-sketch: a browser keeps an ECDSA key pair in
  IndexedDB, derives a 40-character fingerprint from the public key, asks the server for
  a challenge, signs it, and receives a JSON web token. Modelled here, from the sources:
  \<open>keyManager.ts\<close> and \<open>authService.ts\<close> (client), \<open>serverCrypto.ts\<close>, both versions of
  \<open>serverStorage.ts\<close>, \<open>sessionManager.ts\<close> and the handlers of \<open>POST /api/challenge\<close> and
  \<open>POST /api/authenticate\<close> (server). An \<open>async\<close> function is the function of its inputs
  and of the state it reads; a rejected promise or a raised exception is an \<open>Inl\<close>; what a
  function reads from outside (the clock, random bytes, the faults of a store) is a
  parameter. The authenticate handler is given twice: run from request to response, and
  split at its \<open>await\<close>s, for requests that are in flight together.
\<close>

section \<open>Bytes and JavaScript strings\<close>

text \<open>
  A \<open>Uint8Array\<close> / \<open>ArrayBuffer\<close> / Node \<open>Buffer\<close> is a list of 8-bit words. A
  JavaScript string is a \<open>string\<close>: a list of code units below 256 (every string the
  protocol produces is base64 text; code units from 256 on are outside this model).
  \<open>Date.now()\<close> is an \<open>int\<close> of milliseconds, one parameter per call site.
\<close>

type_synonym byte = "8 word"
type_synonym u32 = "32 word"

text \<open>\<open>bytes[i] = binaryString.charCodeAt(i)\<close> and \<open>String.fromCharCode(bytes[i])\<close>.\<close>

definition charCodeAt :: "char \<Rightarrow> byte" where
  "charCodeAt c = of_nat (of_char c)"

definition fromCharCode :: "byte \<Rightarrow> char" where
  "fromCharCode b = char_of (unat b)"

section \<open>Platform functions the sources call\<close>

subsection \<open>Base64 (RFC 4648): \<open>btoa\<close>, \<open>Buffer.toString('base64')\<close>, \<open>Buffer.from(s, 'base64')\<close>\<close>

text \<open>The character of a 6-bit value in the standard alphabet \<open>A-Z a-z 0-9 + /\<close>.\<close>

definition sextet_char :: "nat \<Rightarrow> char" where
  "sextet_char n =
     (if n < 26 then char_of (n + 65)
      else if n < 52 then char_of (n + 71)
      else if n < 62 then char_of (n - 4)
      else if n = 62 then CHR ''+''
      else CHR ''/'')"

text \<open>
  The encoder both runtimes implement: three bytes give four characters, a last group of
  one or two bytes is padded with \<open>=\<close>.
\<close>

fun base64_encode :: "byte list \<Rightarrow> string" where
  "base64_encode [] = []"
| "base64_encode [a] =
     [sextet_char (unat a div 4), sextet_char (unat a mod 4 * 16), CHR ''='', CHR ''='']"
| "base64_encode [a, b] =
     [sextet_char (unat a div 4), sextet_char (unat a mod 4 * 16 + unat b div 16),
      sextet_char (unat b mod 16 * 4), CHR ''='']"
| "base64_encode (a # b # c # rest) =
     [sextet_char (unat a div 4), sextet_char (unat a mod 4 * 16 + unat b div 16),
      sextet_char (unat b mod 16 * 4 + unat c div 64), sextet_char (unat c mod 64)]
     @ base64_encode rest"

text \<open>
  The browser's \<open>btoa\<close> reads a binary string (it raises on a code unit above 255, which
  an 8-bit \<open>char\<close> excludes); Node's \<open>Buffer.toString('base64')\<close> reads the bytes.
\<close>

definition btoa :: "string \<Rightarrow> string" where
  "btoa binary = base64_encode (map charCodeAt binary)"

definition Buffer_toString_base64 :: "byte list \<Rightarrow> string" where
  "Buffer_toString_base64 buf = base64_encode buf"

definition Buffer_toString_binary :: "byte list \<Rightarrow> string" where
  "Buffer_toString_binary buf = map fromCharCode buf"

text \<open>
  Node's decoder never raises on a string: it accepts the standard and the URL-safe
  alphabet, skips every other character (whitespace included) and stops at the first
  \<open>=\<close>. A trailing group of two or three characters gives one or two bytes.
\<close>

definition unbase64 :: "char \<Rightarrow> nat option" where
  "unbase64 c =
     (let n = (of_char c :: nat)
      in if 65 \<le> n \<and> n \<le> 90 then Some (n - 65)
         else if 97 \<le> n \<and> n \<le> 122 then Some (n - 71)
         else if 48 \<le> n \<and> n \<le> 57 then Some (n + 4)
         else if n = 43 \<or> n = 45 then Some 62
         else if n = 47 \<or> n = 95 then Some 63
         else None)"

fun decode_sextets :: "nat list \<Rightarrow> byte list" where
  "decode_sextets (s1 # s2 # s3 # s4 # rest) =
     [of_nat (s1 * 4 + s2 div 16), of_nat (s2 mod 16 * 16 + s3 div 4), of_nat (s3 mod 4 * 64 + s4)]
     @ decode_sextets rest"
| "decode_sextets [s1, s2, s3] = [of_nat (s1 * 4 + s2 div 16), of_nat (s2 mod 16 * 16 + s3 div 4)]"
| "decode_sextets [s1, s2] = [of_nat (s1 * 4 + s2 div 16)]"
| "decode_sextets [s1] = []"
| "decode_sextets [] = []"

definition sextets_of :: "string \<Rightarrow> nat list" where
  "sextets_of s = List.map_filter unbase64 (takeWhile (\<lambda>c. c \<noteq> CHR ''='') s)"

definition Buffer_from_base64 :: "string \<Rightarrow> byte list" where
  "Buffer_from_base64 s = decode_sextets (sextets_of s)"

subsection \<open>UTF-8: \<open>TextEncoder.encode\<close> and \<open>Buffer.from(s, 'utf-8')\<close>\<close>

definition utf8_encode :: "string \<Rightarrow> byte list" where
  "utf8_encode s =
     concat (map (\<lambda>c. let n = (of_char c :: nat)
                      in if n < 128 then [of_nat n]
                         else [of_nat (192 + n div 64), of_nat (128 + n mod 64)]) s)"

subsection \<open>SHA-256 (FIPS 180-4): \<open>subtle.digest('SHA-256', buffer)\<close>\<close>

text \<open>
  The standard defines its constants by the primes: the round constants are the first
  32 bits of the fractional parts of the cube roots of the first 64 primes, the initial
  hash value those of the square roots of the first 8. \<open>iroot k n i 0\<close> is the integer
  \<open>k\<close>-th root of \<open>n\<close>, found bit by bit from bit \<open>i - 1\<close> down.
\<close>

definition primes64 :: "int list" where
  "primes64 =
   [2, 3, 5, 7, 11, 13, 17, 19, 23, 29, 31, 37, 41, 43, 47, 53,
    59, 61, 67, 71, 73, 79, 83, 89, 97, 101, 103, 107, 109, 113, 127, 131,
    137, 139, 149, 151, 157, 163, 167, 173, 179, 181, 191, 193, 197, 199, 211, 223,
    227, 229, 233, 239, 241, 251, 257, 263, 269, 271, 277, 281, 283, 293, 307, 311]"

fun iroot :: "nat \<Rightarrow> int \<Rightarrow> nat \<Rightarrow> int \<Rightarrow> int" where
  "iroot k n 0 r = r"
| "iroot k n (Suc i) r = iroot k n i (if (r + 2 ^ i) ^ k \<le> n then r + 2 ^ i else r)"

definition frac32 :: "nat \<Rightarrow> int \<Rightarrow> u32" where
  "frac32 k p = of_int (iroot k (p * 2 ^ (32 * k)) 36 0)"

definition K256 :: "u32 list" where
  "K256 = map (frac32 3) primes64"

type_synonym hash_state = "u32 \<times> u32 \<times> u32 \<times> u32 \<times> u32 \<times> u32 \<times> u32 \<times> u32"

definition H0 :: hash_state where
  "H0 = (frac32 2 2, frac32 2 3, frac32 2 5, frac32 2 7,
         frac32 2 11, frac32 2 13, frac32 2 17, frac32 2 19)"

definition Ch :: "u32 \<Rightarrow> u32 \<Rightarrow> u32 \<Rightarrow> u32" where
  "Ch x y z = (x AND y) XOR (NOT x AND z)"

definition Maj :: "u32 \<Rightarrow> u32 \<Rightarrow> u32 \<Rightarrow> u32" where
  "Maj x y z = (x AND y) XOR (x AND z) XOR (y AND z)"

definition Sigma0 :: "u32 \<Rightarrow> u32" where
  "Sigma0 x = word_rotr 2 x XOR word_rotr 13 x XOR word_rotr 22 x"

definition Sigma1 :: "u32 \<Rightarrow> u32" where
  "Sigma1 x = word_rotr 6 x XOR word_rotr 11 x XOR word_rotr 25 x"

definition sigma0 :: "u32 \<Rightarrow> u32" where
  "sigma0 x = word_rotr 7 x XOR word_rotr 18 x XOR drop_bit 3 x"

definition sigma1 :: "u32 \<Rightarrow> u32" where
  "sigma1 x = word_rotr 17 x XOR word_rotr 19 x XOR drop_bit 10 x"

text \<open>The message schedule: \<open>schedule 48\<close> extends the 16 words of a block to 64.\<close>

fun schedule :: "nat \<Rightarrow> u32 list \<Rightarrow> u32 list" where
  "schedule 0 ws = ws"
| "schedule (Suc n) ws =
     (let t = length ws
      in schedule n
           (ws @ [sigma1 (ws ! (t - 2)) + ws ! (t - 7) + sigma0 (ws ! (t - 15)) + ws ! (t - 16)]))"

fun round256 :: "hash_state \<Rightarrow> u32 \<times> u32 \<Rightarrow> hash_state" where
  "round256 (a, b, c, d, e, f, g, h) (k, w) =
     (let t1 = h + Sigma1 e + Ch e f g + k + w;
          t2 = Sigma0 a + Maj a b c
      in (t1 + t2, a, b, c, d + t1, e, f, g))"

fun add_state :: "hash_state \<Rightarrow> hash_state \<Rightarrow> hash_state" where
  "add_state (a, b, c, d, e, f, g, h) (a', b', c', d', e', f', g', h') =
     (a + a', b + b', c + c', d + d', e + e', f + f', g + g', h + h')"

definition compress :: "hash_state \<Rightarrow> u32 list \<Rightarrow> hash_state" where
  "compress hs block = add_state hs (foldl round256 hs (zip K256 (schedule 48 block)))"

fun be32 :: "byte list \<Rightarrow> u32 list" where
  "be32 (a # b # c # d # rest) =
     (push_bit 24 (ucast a) OR push_bit 16 (ucast b) OR push_bit 8 (ucast c) OR ucast d) # be32 rest"
| "be32 _ = []"

fun blocks :: "u32 list \<Rightarrow> u32 list list" where
  "blocks [] = []"
| "blocks ws = take 16 ws # blocks (drop 16 ws)"

definition bytes_of_u32 :: "u32 \<Rightarrow> byte list" where
  "bytes_of_u32 w = [ucast (drop_bit 24 w), ucast (drop_bit 16 w), ucast (drop_bit 8 w), ucast w]"

text \<open>Padding: the byte \<open>0x80\<close>, zeros up to 56 modulo 64, the bit length on 64 bits.\<close>

definition pad :: "byte list \<Rightarrow> byte list" where
  "pad m =
     (let n = length m; bits = (of_nat (8 * n) :: 64 word)
      in m @ [0x80] @ replicate ((119 - n mod 64) mod 64) 0 @
         bytes_of_u32 (ucast (drop_bit 32 bits)) @ bytes_of_u32 (ucast bits))"

fun digest_bytes :: "hash_state \<Rightarrow> byte list" where
  "digest_bytes (a, b, c, d, e, f, g, h) = concat (map bytes_of_u32 [a, b, c, d, e, f, g, h])"

definition sha256 :: "byte list \<Rightarrow> byte list" where
  "sha256 m = digest_bytes (foldl compress H0 (blocks (be32 (pad m))))"

subsection \<open>Web Crypto keys, ECDSA and the \<open>jsonwebtoken\<close> library\<close>

text \<open>
  Key handles are opaque: \<open>'pub\<close> and \<open>'priv\<close>. The elliptic-curve operations and the
  HMAC of the token library are parameters, collected in one record. \<open>importKey\<close> rejects
  a buffer that is no SPKI encoding of a P-256 key (\<open>None\<close>); \<open>subtle.verify\<close> answers
  with a boolean, or rejects (\<open>None\<close>).
\<close>

record payload =
  sub :: string
  iat :: int
  exp :: int

datatype token = Token payload "byte list" | Malformed string

record ('pub, 'priv) platform =
  exportKey_spki :: "'pub \<Rightarrow> byte list"
  importKey_spki :: "byte list \<Rightarrow> 'pub option"
  subtle_sign :: "'priv \<Rightarrow> byte list \<Rightarrow> byte list"
  subtle_verify :: "'pub \<Rightarrow> byte list \<Rightarrow> byte list \<Rightarrow> bool option"
  hs256 :: "string \<Rightarrow> payload \<Rightarrow> byte list"
  env_JWT_SECRET :: "string option"

text \<open>
  \<open>jwt.sign(payload, secret)\<close> attaches the HS256 tag of the payload; \<open>jwt.verify(token,
  secret)\<close> raises on a malformed token, on a wrong tag and once the clock, in seconds,
  has reached \<open>exp\<close>; otherwise it returns the payload.
\<close>

datatype jwt_error = JsonWebTokenError | TokenExpiredError

definition jwt_sign :: "('pub, 'priv) platform \<Rightarrow> payload \<Rightarrow> string \<Rightarrow> token" where
  "jwt_sign P p secret = Token p (hs256 P secret p)"

definition jwt_verify :: "('pub, 'priv) platform \<Rightarrow> int \<Rightarrow> token \<Rightarrow> string \<Rightarrow> jwt_error + payload" where
  "jwt_verify P now tok secret =
     (case tok of
        Malformed s \<Rightarrow> Inl JsonWebTokenError
      | Token p tag \<Rightarrow>
          if tag \<noteq> hs256 P secret p then Inl JsonWebTokenError
          else if now div 1000 \<ge> exp p then Inl TokenExpiredError
          else Inr p)"

section \<open>keyManager.ts\<close>

definition DB_NAME :: string where "DB_NAME = ''psz-auth''"
definition STORE_NAME :: string where "STORE_NAME = ''user-key''"
definition KEY_ID :: string where "KEY_ID = ''userKey''"

record ('pub, 'priv) CryptoKeyPair =
  publicKey :: 'pub
  privateKey :: 'priv

text \<open>
  IndexedDB: the values stored under (database, object store, key). Each of its
  operations can fail; which ones do, during one call, is an input.
\<close>

type_synonym ('pub, 'priv) indexedDB = "string \<times> string \<times> string \<rightharpoonup> ('pub, 'priv) CryptoKeyPair"

datatype idb_error = OpenError | TransactionError | RequestError

record idb_faults =
  open_fails :: bool
  transaction_fails :: bool
  request_fails :: bool

definition no_faults :: idb_faults where
  "no_faults = \<lparr>open_fails = False, transaction_fails = False, request_fails = False\<rparr>"

text \<open>\<open>openDatabase\<close>: the promise rejects on \<open>request.onerror\<close>, else resolves to the database.\<close>

definition openDatabase :: "idb_faults \<Rightarrow> idb_error + string" where
  "openDatabase f = (if open_fails f then Inl OpenError else Inr DB_NAME)"

text \<open>
  \<open>createAndStoreKey\<close>: \<open>generateKey\<close> gives the pair \<open>keyPair\<close> (an input: fresh randomness);
  any failure of the store rejects the promise.
\<close>

definition createAndStoreKey ::
  "idb_faults \<Rightarrow> ('pub, 'priv) CryptoKeyPair \<Rightarrow> ('pub, 'priv) indexedDB \<Rightarrow>
   (idb_error + ('pub, 'priv) CryptoKeyPair) \<times> ('pub, 'priv) indexedDB" where
  "createAndStoreKey f keyPair idb =
     (case openDatabase f of
        Inl e \<Rightarrow> (Inl e, idb)
      | Inr db \<Rightarrow>
          if transaction_fails f then (Inl TransactionError, idb)
          else if request_fails f then (Inl RequestError, idb)
          else (Inr keyPair, idb((db, STORE_NAME, KEY_ID) \<mapsto> keyPair)))"

text \<open>The body of the \<open>try\<close> of \<open>getStoredKey\<close>, then the function with its \<open>catch\<close>.\<close>

definition getStoredKey_try ::
  "idb_faults \<Rightarrow> ('pub, 'priv) indexedDB \<Rightarrow> idb_error + ('pub, 'priv) CryptoKeyPair option" where
  "getStoredKey_try f idb =
     (case openDatabase f of
        Inl e \<Rightarrow> Inl e
      | Inr db \<Rightarrow>
          if transaction_fails f then Inl TransactionError
          else if request_fails f then Inl RequestError
          else Inr (idb (db, STORE_NAME, KEY_ID)))"

definition getStoredKey ::
  "idb_faults \<Rightarrow> ('pub, 'priv) indexedDB \<Rightarrow> ('pub, 'priv) CryptoKeyPair option" where
  "getStoredKey f idb =
     (case getStoredKey_try f idb of
        Inl error \<Rightarrow> None
      | Inr keyPair \<Rightarrow> keyPair)"

text \<open>\<open>getOrCreateKey\<close>; the faults of the read and of the write are separate inputs.\<close>

definition getOrCreateKey ::
  "idb_faults \<Rightarrow> idb_faults \<Rightarrow> ('pub, 'priv) CryptoKeyPair \<Rightarrow> ('pub, 'priv) indexedDB \<Rightarrow>
   (idb_error + ('pub, 'priv) CryptoKeyPair) \<times> ('pub, 'priv) indexedDB" where
  "getOrCreateKey f_read f_write fresh idb =
     (case getStoredKey f_read idb of
        Some existingKey \<Rightarrow> (Inr existingKey, idb)
      | None \<Rightarrow> createAndStoreKey f_write fresh idb)"

definition arrayBufferToBase64 :: "byte list \<Rightarrow> string" where
  "arrayBufferToBase64 buffer = btoa (map fromCharCode buffer)"

text \<open>\<open>getPublicKeyDetails\<close> returns the pair \<open>{ fingerprint, fullPublicKey }\<close>.\<close>

definition getPublicKeyDetails :: "('pub, 'priv) platform \<Rightarrow> 'pub \<Rightarrow> string \<times> string" where
  "getPublicKeyDetails P pub =
     (let publicKeyBuffer = exportKey_spki P pub;
          hashBuffer = sha256 publicKeyBuffer;
          fingerprintBytes = take 30 hashBuffer
      in (arrayBufferToBase64 fingerprintBytes, arrayBufferToBase64 publicKeyBuffer))"

definition signData :: "('pub, 'priv) platform \<Rightarrow> 'priv \<Rightarrow> string \<Rightarrow> string" where
  "signData P priv data = arrayBufferToBase64 (subtle_sign P priv (utf8_encode data))"

section \<open>serverCrypto.ts\<close>

text \<open>\<open>process.env.JWT_SECRET || 'demo-secret-key-change-in-production'\<close>.\<close>

definition JWT_SECRET :: "('pub, 'priv) platform \<Rightarrow> string" where
  "JWT_SECRET P =
     (case env_JWT_SECRET P of
        None \<Rightarrow> ''demo-secret-key-change-in-production''
      | Some s \<Rightarrow> if s = [] then ''demo-secret-key-change-in-production'' else s)"

definition base64ToArrayBuffer :: "string \<Rightarrow> byte list" where
  "base64ToArrayBuffer base64 =
     map charCodeAt (Buffer_toString_binary (Buffer_from_base64 base64))"

text \<open>\<open>verifyFingerprint\<close>: nothing in its \<open>try\<close> raises on strings.\<close>

definition verifyFingerprint :: "string \<Rightarrow> string \<Rightarrow> bool" where
  "verifyFingerprint fingerprint fullPublicKey =
     (let publicKeyBuffer = base64ToArrayBuffer fullPublicKey;
          hashBuffer = sha256 publicKeyBuffer;
          fingerprintBytes = take 30 hashBuffer;
          calculatedFingerprint = Buffer_toString_base64 fingerprintBytes
      in calculatedFingerprint = fingerprint)"

text \<open>
  \<open>verifySignature\<close>: the body of its \<open>try\<close>, where \<open>importKey\<close> and \<open>verify\<close> can raise,
  then the function with its \<open>catch\<close>. \<open>Inl\<close> is a rejected promise.
\<close>

datatype crypto_error = DataError | OperationError

definition verifySignature_try ::
  "('pub, 'priv) platform \<Rightarrow> string \<Rightarrow> string \<Rightarrow> string \<Rightarrow> crypto_error + bool" where
  "verifySignature_try P fullPublicKey challenge signature =
     (case importKey_spki P (base64ToArrayBuffer fullPublicKey) of
        None \<Rightarrow> Inl DataError
      | Some importedKey \<Rightarrow>
          (case subtle_verify P importedKey (base64ToArrayBuffer signature) (utf8_encode challenge) of
             None \<Rightarrow> Inl OperationError
           | Some isValid \<Rightarrow> Inr isValid))"

definition verifySignature ::
  "('pub, 'priv) platform \<Rightarrow> string \<Rightarrow> string \<Rightarrow> string \<Rightarrow> crypto_error + bool" where
  "verifySignature P fullPublicKey challenge signature =
     (case verifySignature_try P fullPublicKey challenge signature of
        Inl error \<Rightarrow> Inr False
      | Inr isValid \<Rightarrow> Inr isValid)"

text \<open>
  \<open>generateJWT\<close> reads the clock twice: \<open>t_iat\<close> is what \<open>Date.now()\<close> returns for \<open>iat\<close>,
  \<open>t_exp\<close> what it returns, later, for \<open>exp\<close>. \<open>Math.floor(t / 1000)\<close> is \<open>t div 1000\<close>
  (the quotient is exact in double precision for every clock value below \<open>2^53\<close>).
\<close>

definition generateJWT :: "('pub, 'priv) platform \<Rightarrow> int \<Rightarrow> int \<Rightarrow> string \<Rightarrow> token" where
  "generateJWT P t_iat t_exp fingerprint =
     (let payload = \<lparr>sub = fingerprint, iat = t_iat div 1000, exp = t_exp div 1000 + 3600\<rparr>
      in jwt_sign P payload (JWT_SECRET P))"

definition verifyJWT :: "('pub, 'priv) platform \<Rightarrow> int \<Rightarrow> token \<Rightarrow> payload option" where
  "verifyJWT P now tok =
     (case jwt_verify P now tok (JWT_SECRET P) of
        Inl error \<Rightarrow> None
      | Inr payload \<Rightarrow> Some payload)"

section \<open>serverStorage.ts\<close>

text \<open>
  The fields of \<open>User\<close>, \<open>ChallengeData\<close> and \<open>UserSession\<close> carry the name of their
  interface as a prefix (\<open>user.fingerprint\<close> is \<open>user_fingerprint user\<close>).
\<close>

record User =
  user_fingerprint :: string
  user_publicKey :: string
  user_createdAt :: string

record ChallengeData =
  data_fingerprint :: string
  data_challenge :: string
  data_timestamp :: int
  data_expiresIn :: int

record UserSession =
  session_fingerprint :: string
  session_authenticatedAt :: int
  session_expiresAt :: int

text \<open>
  The state of the server process: the two in-memory maps, the callbacks \<open>setTimeout\<close>
  has pending (due time and fingerprint), and the session store, by session identifier.
\<close>

record server =
  inMemoryUsers :: "string \<rightharpoonup> User"
  inMemoryChallenges :: "string \<rightharpoonup> ChallengeData"
  timers :: "(int \<times> string) list"
  sessions :: "string \<rightharpoonup> UserSession"

text \<open>The process starts with every \<open>new Map()\<close> empty.\<close>

definition empty_server :: server where
  "empty_server =
     \<lparr>inMemoryUsers = Map.empty, inMemoryChallenges = Map.empty, timers = [],
      sessions = Map.empty\<rparr>"

text \<open>
  The repository holds two \<open>serverStorage.ts\<close> with a \<open>challenges\<close> wrapper. \<open>MapStorage\<close>
  is \<open>src/mod/serverStorage.ts\<close> (headed "Uses MongoDB for persistent storage in
  production", taken here without \<open>MONGODB_URI\<close>: its in-memory branch), where
  \<open>challenges\<close> is a plain map. \<open>ExpiringStorage\<close> is the other one (headed "Challenges:
  Redis with TTL (temporary, auto-expire)"), whose challenges are always in memory and
  expire: \<open>get\<close> drops an entry past its time, and \<open>set\<close> schedules its deletion. The
  \<open>users\<close> wrapper is the same in both.
\<close>

datatype storage = MapStorage | ExpiringStorage

definition users_get :: "string \<Rightarrow> server \<Rightarrow> User option" where
  "users_get fingerprint s = inMemoryUsers s fingerprint"

definition users_set :: "string \<Rightarrow> User \<Rightarrow> server \<Rightarrow> server" where
  "users_set fingerprint user s = s\<lparr>inMemoryUsers := (inMemoryUsers s)(fingerprint \<mapsto> user)\<rparr>"

definition challenges_delete :: "string \<Rightarrow> server \<Rightarrow> server" where
  "challenges_delete fingerprint s =
     s\<lparr>inMemoryChallenges := (inMemoryChallenges s)(fingerprint := None)\<rparr>"

text \<open>\<open>challenges.get\<close>; \<open>now\<close> is the \<open>Date.now()\<close> of the expiring version.\<close>

definition challenges_get ::
  "storage \<Rightarrow> int \<Rightarrow> string \<Rightarrow> server \<Rightarrow> ChallengeData option \<times> server" where
  "challenges_get impl now fingerprint s =
     (case impl of
        MapStorage \<Rightarrow> (inMemoryChallenges s fingerprint, s)
      | ExpiringStorage \<Rightarrow>
          (case inMemoryChallenges s fingerprint of
             None \<Rightarrow> (None, s)
           | Some data \<Rightarrow>
               let expiresAt = data_timestamp data + data_expiresIn data
               in if now > expiresAt then (None, challenges_delete fingerprint s)
                  else (Some data, s)))"

text \<open>\<open>challenges.set\<close>; \<open>now\<close> is the time of the call, from which the timer counts.\<close>

definition challenges_set ::
  "storage \<Rightarrow> int \<Rightarrow> string \<Rightarrow> ChallengeData \<Rightarrow> server \<Rightarrow> server" where
  "challenges_set impl now fingerprint data s =
     (case impl of
        MapStorage \<Rightarrow> s\<lparr>inMemoryChallenges := (inMemoryChallenges s)(fingerprint \<mapsto> data)\<rparr>
      | ExpiringStorage \<Rightarrow>
          s\<lparr>inMemoryChallenges := (inMemoryChallenges s)(fingerprint \<mapsto> data),
            timers := timers s @ [(now + data_expiresIn data, fingerprint)]\<rparr>)"

text \<open>The event loop at time \<open>now\<close>: every callback that is due runs and is removed.\<close>

definition run_timers :: "int \<Rightarrow> server \<Rightarrow> server" where
  "run_timers now s =
     (let due = filter (\<lambda>timer. fst timer \<le> now) (timers s);
          s' = fold (\<lambda>timer. challenges_delete (snd timer)) due s
      in s'\<lparr>timers := filter (\<lambda>timer. \<not> fst timer \<le> now) (timers s)\<rparr>)"

section \<open>sessionManager.ts\<close>

datatype js_error = TypeError

text \<open>
  \<open>createUserSession\<close> with the default \<open>expiresInSeconds = 3600\<close>. The request's session is
  its identifier, or \<open>None\<close> when the request has no session (\<open>session.set\<close> raises).
\<close>

definition createUserSession :: "string option \<Rightarrow> int \<Rightarrow> string \<Rightarrow> server \<Rightarrow> js_error + server" where
  "createUserSession session now fingerprint s =
     (let sessionData = \<lparr>session_fingerprint = fingerprint, session_authenticatedAt = now,
                          session_expiresAt = now + 3600 * 1000\<rparr>
      in case session of
           None \<Rightarrow> Inl TypeError
         | Some sid \<Rightarrow> Inr (s\<lparr>sessions := (sessions s)(sid \<mapsto> sessionData)\<rparr>))"

section \<open>The endpoints \<open>/api/challenge\<close> and \<open>/api/authenticate\<close>\<close>

text \<open>
  A request body is the string fields of the JSON value, by name (a JSON value without
  the fields a handler reads is the empty map); \<open>None\<close> is a body that \<open>request.json()\<close>
  rejects, or the JSON \<open>null\<close>, whose destructuring raises: the handler's \<open>catch\<close> answers
  500. A response is its status and its JSON.
\<close>

type_synonym request = "(string \<rightharpoonup> string) option"

datatype reply = Error string | ChallengeReply string | JwtReply token

record response =
  status :: nat
  json :: reply

definition internal_error :: response where
  "internal_error = \<lparr>status = 500, json = Error ''Internal server error''\<rparr>"

text \<open>What the handler of \<open>/api/challenge\<close> reads from outside: \<open>randomBytes(32)\<close>,
  \<open>new Date().toISOString()\<close> and \<open>Date.now()\<close>.\<close>

record challenge_env =
  challengeBytes :: "byte list"
  now_iso :: string
  t_stamp :: int

definition POST_challenge ::
  "storage \<Rightarrow> challenge_env \<Rightarrow> request \<Rightarrow> server \<Rightarrow> response \<times> server" where
  "POST_challenge impl env request s =
     (case request of
        None \<Rightarrow> (internal_error, s)
      | Some body \<Rightarrow>
          (case (body ''fingerprint'', body ''fullPublicKey'') of
             (Some fingerprint, Some fullPublicKey) \<Rightarrow>
               if fingerprint = [] \<or> fullPublicKey = []
               then (\<lparr>status = 400, json = Error ''Missing fingerprint or fullPublicKey''\<rparr>, s)
               else if \<not> verifyFingerprint fingerprint fullPublicKey
               then (\<lparr>status = 400, json = Error ''Fingerprint does not match public key''\<rparr>, s)
               else
                 let s1 = (case users_get fingerprint s of
                             None \<Rightarrow>
                               users_set fingerprint
                                 \<lparr>user_fingerprint = fingerprint, user_publicKey = fullPublicKey,
                                  user_createdAt = now_iso env\<rparr> s
                           | Some user \<Rightarrow> s);
                     challenge = Buffer_toString_base64 (challengeBytes env);
                     s2 = challenges_set impl (t_stamp env) fingerprint
                            \<lparr>data_fingerprint = fingerprint, data_challenge = challenge,
                             data_timestamp = t_stamp env, data_expiresIn = 120000\<rparr> s1
                 in (\<lparr>status = 200, json = ChallengeReply challenge\<rparr>, s2)
           | _ \<Rightarrow> (\<lparr>status = 400, json = Error ''Missing fingerprint or fullPublicKey''\<rparr>, s)))"

text \<open>
  What the handler of \<open>/api/authenticate\<close> reads from outside: the clock at each of its
  call sites (in \<open>challenges.get\<close>, at the expiry check, twice in \<open>generateJWT\<close>, in
  \<open>createUserSession\<close>) and the request's session.
\<close>

record auth_env =
  t_get :: int
  t_check :: int
  t_iat :: int
  t_exp :: int
  t_session :: int
  session_id :: "string option"

definition POST_authenticate ::
  "storage \<Rightarrow> ('pub, 'priv) platform \<Rightarrow> auth_env \<Rightarrow> request \<Rightarrow> server \<Rightarrow> response \<times> server" where
  "POST_authenticate impl P env request s =
     (case request of
        None \<Rightarrow> (internal_error, s)
      | Some body \<Rightarrow>
          (case (body ''fingerprint'', body ''signature'') of
             (Some fingerprint, Some signature) \<Rightarrow>
               if fingerprint = [] \<or> signature = []
               then (\<lparr>status = 400, json = Error ''Missing fingerprint or signature''\<rparr>, s)
               else
                 (case users_get fingerprint s of
                    None \<Rightarrow> (\<lparr>status = 401, json = Error ''User not found''\<rparr>, s)
                  | Some user \<Rightarrow>
                      (case challenges_get impl (t_get env) fingerprint s of
                         (None, s1) \<Rightarrow> (\<lparr>status = 401, json = Error ''No challenge found''\<rparr>, s1)
                       | (Some challengeData, s1) \<Rightarrow>
                           if t_check env - data_timestamp challengeData > data_expiresIn challengeData
                           then (\<lparr>status = 401, json = Error ''Challenge expired''\<rparr>,
                                 challenges_delete fingerprint s1)
                           else
                             let challenge = data_challenge challengeData;
                                 s2 = challenges_delete fingerprint s1
                             in (case verifySignature P (user_publicKey user) challenge signature of
                                   Inl error \<Rightarrow> (internal_error, s2)
                                 | Inr isValid \<Rightarrow>
                                     if \<not> isValid
                                     then (\<lparr>status = 401, json = Error ''Invalid signature''\<rparr>, s2)
                                     else
                                       let jwt = generateJWT P (t_iat env) (t_exp env) fingerprint
                                       in (case createUserSession (session_id env) (t_session env)
                                                  fingerprint s2 of
                                             Inl error \<Rightarrow> (internal_error, s2)
                                           | Inr s3 \<Rightarrow> (\<lparr>status = 200, json = JwtReply jwt\<rparr>, s3)))))
           | _ \<Rightarrow> (\<lparr>status = 400, json = Error ''Missing fingerprint or signature''\<rparr>, s)))"

section \<open>authService.ts\<close>

datatype client_error =
  KeyStoreError idb_error
  | ChallengeRequestFailed nat
  | AuthenticationFailed nat
  | NoField

text \<open>\<open>response.ok\<close>: a status from 200 to 299.\<close>

definition response_ok :: "response \<Rightarrow> bool" where
  "response_ok r = (200 \<le> status r \<and> status r \<le> 299)"

text \<open>
  \<open>authenticate\<close>, the client's whole flow; each \<open>fetch\<close> is the endpoint run on the
  server's state. It returns the token or the error raised, the client's IndexedDB and
  the server's state.
\<close>

definition authenticate ::
  "storage \<Rightarrow> ('pub, 'priv) platform \<Rightarrow> idb_faults \<Rightarrow> idb_faults \<Rightarrow> ('pub, 'priv) CryptoKeyPair \<Rightarrow>
   challenge_env \<Rightarrow> auth_env \<Rightarrow> ('pub, 'priv) indexedDB \<Rightarrow> server \<Rightarrow>
   (client_error + token) \<times> ('pub, 'priv) indexedDB \<times> server" where
  "authenticate impl P f_read f_write fresh cenv aenv idb s =
     (case getOrCreateKey f_read f_write fresh idb of
        (Inl e, idb1) \<Rightarrow> (Inl (KeyStoreError e), idb1, s)
      | (Inr keyPair, idb1) \<Rightarrow>
          (case getPublicKeyDetails P (publicKey keyPair) of
             (fingerprint, fullPublicKey) \<Rightarrow>
               (case POST_challenge impl cenv
                       (Some [''fingerprint'' \<mapsto> fingerprint, ''fullPublicKey'' \<mapsto> fullPublicKey]) s of
                  (challengeResponse, s1) \<Rightarrow>
                    if \<not> response_ok challengeResponse
                    then (Inl (ChallengeRequestFailed (status challengeResponse)), idb1, s1)
                    else
                      (case json challengeResponse of
                         ChallengeReply challenge \<Rightarrow>
                           let signature = signData P (privateKey keyPair) challenge
                           in (case POST_authenticate impl P aenv
                                       (Some [''fingerprint'' \<mapsto> fingerprint, ''signature'' \<mapsto> signature]) s1 of
                                 (authResponse, s2) \<Rightarrow>
                                   if \<not> response_ok authResponse
                                   then (Inl (AuthenticationFailed (status authResponse)), idb1, s2)
                                   else
                                     (case json authResponse of
                                        JwtReply jwt \<Rightarrow> (Inr jwt, idb1, s2)
                                      | _ \<Rightarrow> (Inl NoField, idb1, s2)))
                       | _ \<Rightarrow> (Inl NoField, idb1, s1)))))"

section \<open>The authenticate handler, await by await\<close>

text \<open>
  \<open>POST_authenticate\<close> above is the handler run from its first line to its response with
  nothing in between. The handler is an \<open>async\<close> function: at each \<open>await\<close> it is suspended,
  and other requests run before it resumes. \<open>auth_pc\<close> is where a request stands: its
  body just read (\<open>Received\<close>); suspended at \<open>await users.get\<close>, \<open>await challenges.get\<close>,
  \<open>await challenges.delete\<close> (on the expired path and on the other), \<open>await
  verifySignature\<close>, \<open>await createUserSession\<close>, each with what the call returns and the
  locals still needed; or answered (\<open>Done\<close>). \<open>auth_step\<close> runs the handler from one such
  point to the next: the code after the \<open>await\<close>, up to and including the next call, whose
  in-memory body runs when it is called.
\<close>

datatype auth_pc =
    Received request
  | GotUser string string "User option"
  | GotChallenge string string User "ChallengeData option"
  | DeletedExpired
  | Deleted string string User string
  | Verified string "crypto_error + bool"
  | SessionSet token
  | Done response

fun auth_step ::
  "storage \<Rightarrow> ('pub, 'priv) platform \<Rightarrow> auth_env \<Rightarrow> auth_pc \<Rightarrow> server \<Rightarrow> auth_pc \<times> server" where
  "auth_step impl P env (Received None) s = (Done internal_error, s)"
| "auth_step impl P env (Received (Some body)) s =
     (case (body ''fingerprint'', body ''signature'') of
        (Some fingerprint, Some signature) \<Rightarrow>
          if fingerprint = [] \<or> signature = []
          then (Done \<lparr>status = 400, json = Error ''Missing fingerprint or signature''\<rparr>, s)
          else (GotUser fingerprint signature (users_get fingerprint s), s)
      | _ \<Rightarrow> (Done \<lparr>status = 400, json = Error ''Missing fingerprint or signature''\<rparr>, s))"
| "auth_step impl P env (GotUser fingerprint signature None) s =
     (Done \<lparr>status = 401, json = Error ''User not found''\<rparr>, s)"
| "auth_step impl P env (GotUser fingerprint signature (Some user)) s =
     (case challenges_get impl (t_get env) fingerprint s of
        (challengeData, s1) \<Rightarrow> (GotChallenge fingerprint signature user challengeData, s1))"
| "auth_step impl P env (GotChallenge fingerprint signature user None) s =
     (Done \<lparr>status = 401, json = Error ''No challenge found''\<rparr>, s)"
| "auth_step impl P env (GotChallenge fingerprint signature user (Some challengeData)) s =
     (if t_check env - data_timestamp challengeData > data_expiresIn challengeData
      then (DeletedExpired, challenges_delete fingerprint s)
      else (Deleted fingerprint signature user (data_challenge challengeData),
            challenges_delete fingerprint s))"
| "auth_step impl P env DeletedExpired s =
     (Done \<lparr>status = 401, json = Error ''Challenge expired''\<rparr>, s)"
| "auth_step impl P env (Deleted fingerprint signature user challenge) s =
     (Verified fingerprint (verifySignature P (user_publicKey user) challenge signature), s)"
| "auth_step impl P env (Verified fingerprint (Inl error)) s = (Done internal_error, s)"
| "auth_step impl P env (Verified fingerprint (Inr isValid)) s =
     (if \<not> isValid then (Done \<lparr>status = 401, json = Error ''Invalid signature''\<rparr>, s)
      else
        let jwt = generateJWT P (t_iat env) (t_exp env) fingerprint
        in (case createUserSession (session_id env) (t_session env) fingerprint s of
              Inl error \<Rightarrow> (Done internal_error, s)
            | Inr s3 \<Rightarrow> (SessionSet jwt, s3)))"
| "auth_step impl P env (SessionSet jwt) s = (Done \<lparr>status = 200, json = JwtReply jwt\<rparr>, s)"
| "auth_step impl P env (Done r) s = (Done r, s)"

text \<open>One request alone: \<open>n\<close> steps in a row.\<close>

fun auth_run ::
  "storage \<Rightarrow> ('pub, 'priv) platform \<Rightarrow> auth_env \<Rightarrow> nat \<Rightarrow> auth_pc \<Rightarrow> server \<Rightarrow> auth_pc \<times> server" where
  "auth_run impl P env 0 pc s = (pc, s)"
| "auth_run impl P env (Suc n) pc s =
     (case auth_step impl P env pc s of (pc', s') \<Rightarrow> auth_run impl P env n pc' s')"

text \<open>
  Requests in flight together: each is what its handler reads from outside and where it
  stands. \<open>advance i\<close> resumes request number \<open>i\<close> for one step on the shared state;
  \<open>interleave\<close> resumes the requests in the order given.
\<close>

type_synonym task = "auth_env \<times> auth_pc"

definition advance ::
  "storage \<Rightarrow> ('pub, 'priv) platform \<Rightarrow> nat \<Rightarrow> task list \<times> server \<Rightarrow> task list \<times> server" where
  "advance impl P i cfg =
     (case cfg of
        (tasks, s) \<Rightarrow>
          if i < length tasks
          then (case tasks ! i of
                  (env, pc) \<Rightarrow>
                    (case auth_step impl P env pc s of
                       (pc', s') \<Rightarrow> (tasks[i := (env, pc')], s')))
          else (tasks, s))"

definition interleave ::
  "storage \<Rightarrow> ('pub, 'priv) platform \<Rightarrow> nat list \<Rightarrow> task list \<Rightarrow> server \<Rightarrow> task list \<times> server" where
  "interleave impl P order tasks s = fold (advance impl P) order (tasks, s)"

section \<open>A small platform, key pair and run, for concrete inputs\<close>

text \<open>
  Keys are numbers; the SPKI encoding of a key is one byte; a signature is the signer's
  byte before the data. Every theorem below holds for any platform: this one only
  serves to run the definitions on concrete inputs.
\<close>

definition demo_platform :: "(nat, nat) platform" where
  "demo_platform =
     \<lparr>exportKey_spki = (\<lambda>k. [of_nat (k mod 7)]),
      importKey_spki = (\<lambda>buf. case buf of [b] \<Rightarrow> Some (unat b) | _ \<Rightarrow> None),
      subtle_sign = (\<lambda>priv data. of_nat priv # data),
      subtle_verify = (\<lambda>pub sig data. Some (sig = of_nat pub # data)),
      hs256 = (\<lambda>secret p. utf8_encode secret @ utf8_encode (sub p)),
      env_JWT_SECRET = None\<rparr>"

definition demo_keyPair :: "(nat, nat) CryptoKeyPair" where
  "demo_keyPair = \<lparr>publicKey = 3, privateKey = 3\<rparr>"

definition demo_fresh :: "(nat, nat) CryptoKeyPair" where
  "demo_fresh = \<lparr>publicKey = 5, privateKey = 5\<rparr>"

text \<open>An IndexedDB that holds \<open>demo_keyPair\<close>, and a store whose requests fail.\<close>

definition demo_idb :: "(nat, nat) indexedDB" where
  "demo_idb = [(DB_NAME, STORE_NAME, KEY_ID) \<mapsto> demo_keyPair]"

definition read_fault :: idb_faults where
  "read_fault = \<lparr>open_fails = False, transaction_fails = False, request_fails = True\<rparr>"

text \<open>
  The client's identifier and key text, the challenge request it sends at
  2025-01-01T00:00:00Z, the server after that request, and the authenticate request
  with the signature of the nonce.
\<close>

definition demo_details :: "string \<times> string" where
  "demo_details = getPublicKeyDetails demo_platform (publicKey demo_keyPair)"

definition demo_challenge_env :: challenge_env where
  "demo_challenge_env =
     \<lparr>challengeBytes = replicate 32 7, now_iso = ''2025-01-01T00:00:00.000Z'',
      t_stamp = 1735689600000\<rparr>"

definition demo_challenge_body :: "string \<rightharpoonup> string" where
  "demo_challenge_body =
     [''fingerprint'' \<mapsto> fst demo_details, ''fullPublicKey'' \<mapsto> snd demo_details]"

definition demo_issued :: "storage \<Rightarrow> server" where
  "demo_issued impl =
     snd (POST_challenge impl demo_challenge_env (Some demo_challenge_body) empty_server)"

definition demo_challenge :: string where
  "demo_challenge = Buffer_toString_base64 (challengeBytes demo_challenge_env)"

definition demo_auth_body :: "string \<rightharpoonup> string" where
  "demo_auth_body =
     [''fingerprint'' \<mapsto> fst demo_details,
      ''signature'' \<mapsto> signData demo_platform (privateKey demo_keyPair) demo_challenge]"

text \<open>An authenticate request handled within the millisecond \<open>now\<close>.\<close>

definition demo_auth_env :: "int \<Rightarrow> auth_env" where
  "demo_auth_env now =
     \<lparr>t_get = now, t_check = now, t_iat = now, t_exp = now, t_session = now,
      session_id = Some ''session-1''\<rparr>"

section \<open>Base64 and SHA-256: basic facts\<close>

lemma unat_byte_less: "unat (b :: byte) < 256"
  using unsigned_less [of b, where 'a = nat] by simp

lemma charCodeAt_fromCharCode: "charCodeAt (fromCharCode b) = b"
  using unat_byte_less [of b] by (simp add: charCodeAt_def fromCharCode_def)

lemma map_charCodeAt_fromCharCode: "map charCodeAt (map fromCharCode bs) = bs"
  by (induction bs) (simp_all add: charCodeAt_fromCharCode)

lemma arrayBufferToBase64_eq: "arrayBufferToBase64 buffer = base64_encode buffer"
  by (simp add: arrayBufferToBase64_def btoa_def map_charCodeAt_fromCharCode del: map_map)

lemma unbase64_sextet_char: "n < 64 \<Longrightarrow> unbase64 (sextet_char n) = Some n"
  by (auto simp add: unbase64_def sextet_char_def Let_def)

lemma sextet_char_not_pad: "n < 64 \<Longrightarrow> sextet_char n \<noteq> CHR ''=''"
proof
  assume "n < 64" and "sextet_char n = CHR ''=''"
  then have "unbase64 (CHR ''='') = Some n"
    using unbase64_sextet_char [of n] by simp
  then show False by (simp add: unbase64_def)
qed

text \<open>Splitting three bytes into four 6-bit values and back, on natural numbers.\<close>

lemma regroup1:
  assumes "y < 256"
  shows "x div 4 * 4 + (x mod 4 * 16 + y div 16) div 16 = (x::nat)"
proof -
  have "y div 16 < 16" using assms by simp
  then have "(x mod 4 * 16 + y div 16) div 16 = x mod 4" by simp
  then show ?thesis by simp
qed

lemma regroup2:
  assumes "y < 256" and "z < 256"
  shows "(x mod 4 * 16 + y div 16) mod 16 * 16 + (y mod 16 * 4 + z div 64) div 4 = (y::nat)"
proof -
  have "z div 64 < 4" using assms by simp
  then have "(y mod 16 * 4 + z div 64) div 4 = y mod 16" by simp
  moreover have "y div 16 < 16" using assms by simp
  then have "(x mod 4 * 16 + y div 16) mod 16 = y div 16" by simp
  ultimately show ?thesis by simp
qed

lemma regroup3:
  assumes "z < 256"
  shows "(y mod 16 * 4 + z div 64) mod 4 * 64 + z mod 64 = (z::nat)"
proof -
  have "z div 64 < 4" using assms by simp
  then have "(y mod 16 * 4 + z div 64) mod 4 = z div 64" by simp
  then show ?thesis by simp
qed

lemma decode_sextets_encode4:
  fixes a b c :: byte
  shows "decode_sextets (unat a div 4 # (unat a mod 4 * 16 + unat b div 16) #
           (unat b mod 16 * 4 + unat c div 64) # unat c mod 64 # rest) =
         a # b # c # decode_sextets rest"
  using regroup1 [OF unat_byte_less [of b], of "unat a"]
    regroup2 [OF unat_byte_less [of b] unat_byte_less [of c], of "unat a"]
    regroup3 [OF unat_byte_less [of c], of "unat b"]
  by simp

lemma decode_sextets_encode3:
  fixes a b :: byte
  shows "decode_sextets [unat a div 4, unat a mod 4 * 16 + unat b div 16, unat b mod 16 * 4] = [a, b]"
  using regroup1 [OF unat_byte_less [of b], of "unat a"]
    regroup2 [where x = "unat a" and y = "unat b" and z = 0] unat_byte_less [of b]
  by simp

lemma decode_sextets_encode2:
  fixes a :: byte
  shows "decode_sextets [unat a div 4, unat a mod 4 * 16] = [a]"
  using regroup1 [of 0 "unat a"] by simp

lemma sextet_bounds:
  fixes a b c :: byte
  shows "unat a div 4 < 64" "unat a mod 4 * 16 + unat b div 16 < 64"
    "unat b mod 16 * 4 + unat c div 64 < 64" "unat c mod 64 < 64"
    "unat a mod 4 * 16 < 64" "unat b mod 16 * 4 < 64"
  using unat_byte_less [of a] unat_byte_less [of b] unat_byte_less [of c]
  by (simp_all add: less_mult_imp_div_less)

lemma map_filter_Cons_Some:
  "f x = Some y \<Longrightarrow> List.map_filter f (x # xs) = y # List.map_filter f xs"
  by (simp add: List.map_filter_def)

lemma sextets_of_Cons: "n < 64 \<Longrightarrow> sextets_of (sextet_char n # s) = n # sextets_of s"
  by (simp add: sextets_of_def sextet_char_not_pad unbase64_sextet_char map_filter_Cons_Some)

lemma sextets_of_pad: "sextets_of (CHR ''='' # s) = []"
  by (simp add: sextets_of_def List.map_filter_def)

lemma sextets_of_Nil: "sextets_of [] = []"
  by (simp add: sextets_of_def List.map_filter_def)

text \<open>Node's decoder inverts the encoder.\<close>

lemma Buffer_from_base64_encode: "Buffer_from_base64 (base64_encode bs) = bs"
proof -
  have "decode_sextets (sextets_of (base64_encode bs)) = bs"
  proof (induction bs rule: base64_encode.induct)
    case 1
    show ?case by (simp add: sextets_of_Nil)
  next
    case (2 a)
    show ?case
      by (simp add: sextets_of_Cons sextet_bounds sextets_of_pad decode_sextets_encode2
          del: decode_sextets.simps)
  next
    case (3 a b)
    show ?case
      by (simp add: sextets_of_Cons sextet_bounds sextets_of_pad decode_sextets_encode3
          del: decode_sextets.simps)
  next
    case (4 a b c rest)
    then show ?case
      by (simp add: sextets_of_Cons sextet_bounds decode_sextets_encode4
          del: decode_sextets.simps)
  qed
  then show ?thesis by (simp add: Buffer_from_base64_def)
qed

lemma base64ToArrayBuffer_arrayBufferToBase64:
  "base64ToArrayBuffer (arrayBufferToBase64 buffer) = buffer"
  by (simp add: base64ToArrayBuffer_def arrayBufferToBase64_eq Buffer_toString_binary_def
      map_charCodeAt_fromCharCode Buffer_from_base64_encode del: map_map)

lemma base64ToArrayBuffer_encode: "base64ToArrayBuffer (base64_encode buffer) = buffer"
  using base64ToArrayBuffer_arrayBufferToBase64 [of buffer] by (simp add: arrayBufferToBase64_eq)

lemma length_base64_encode: "length (base64_encode bs) = 4 * ((length bs + 2) div 3)"
proof (induction bs rule: base64_encode.induct)
  case (4 a b c rest)
  have "(length rest + 5) div 3 = Suc ((length rest + 2) div 3)" by arith
  with 4 show ?case by (simp add: add.commute)
qed simp_all

text \<open>The digest has 32 bytes; the two standard test vectors fix the model.\<close>

lemma length_sha256: "length (sha256 m) = 32"
proof -
  obtain a b c d e f g h where
    "foldl compress H0 (blocks (be32 (pad m))) = (a, b, c, d, e, f, g, h)"
    by (metis prod_cases4)
  then show ?thesis by (simp add: sha256_def bytes_of_u32_def)
qed

lemma sha256_empty:
  "base64_encode (sha256 []) = ''47DEQpj8HBSa+/TImW+5JCeuQeRkm5NMpJWZG3hSuFU=''"
  by code_simp

lemma sha256_abc:
  "base64_encode (sha256 (utf8_encode ''abc'')) = ''ungWv48Bz+pBQUDeXa4iI7ADYaOWF3qctBD/YfIAFa0=''"
  by code_simp

lemma base64_alphabet:
  "map sextet_char [0..<64] = ''ABCDEFGHIJKLMNOPQRSTUVWXYZabcdefghijklmnopqrstuvwxyz0123456789+/''"
  by code_simp

lemma length_fingerprint: "length (base64_encode (take 30 (sha256 m))) = 40"
  by (simp add: length_base64_encode length_sha256)

section \<open>Fingerprint derivation\<close>

lemma length_getPublicKeyDetails: "length (fst (getPublicKeyDetails P pub)) = 40"
  by (simp add: getPublicKeyDetails_def Let_def arrayBufferToBase64_eq length_fingerprint)

lemma other_length_not_fingerprint:
  "length fp \<noteq> 40 \<Longrightarrow> fp \<noteq> fst (getPublicKeyDetails P pub)"
  using length_getPublicKeyDetails [of P pub] by auto

lemma fingerprint_nonempty: "fst (getPublicKeyDetails P pub) \<noteq> []"
  using other_length_not_fingerprint [of "[]" P pub] by simp

lemma base64_encode_nonempty: "bs \<noteq> [] \<Longrightarrow> base64_encode bs \<noteq> []"
  by (cases bs rule: base64_encode.cases) simp_all

lemma verifyFingerprint_details:
  "verifyFingerprint (fst (getPublicKeyDetails P pub)) (snd (getPublicKeyDetails P pub))"
  by (simp add: verifyFingerprint_def getPublicKeyDetails_def Let_def
      base64ToArrayBuffer_encode Buffer_toString_base64_def arrayBufferToBase64_eq)

lemma short_fingerprint_mismatch:
  "length fp \<noteq> 40 \<Longrightarrow> fp \<noteq> Buffer_toString_base64 (take 30 (sha256 buf))"
  using length_fingerprint [of buf] by (auto simp add: Buffer_toString_base64_def)

lemma demo_spki: "exportKey_spki demo_platform (publicKey demo_keyPair) = [3]"
  by (simp add: demo_platform_def demo_keyPair_def)

lemma demo_details_eq:
  "snd demo_details = base64_encode [3]" "fst demo_details \<noteq> []" "snd demo_details \<noteq> []"
  by (simp_all add: demo_details_def fingerprint_nonempty)
     (simp_all add: getPublicKeyDetails_def Let_def demo_spki arrayBufferToBase64_eq)

text \<open>
  C6. For every public key, the fingerprint \<open>getPublicKeyDetails\<close> derives is the base64
  text of the first 30 bytes of the SHA-256 digest of the key's SPKI encoding; it has
  exactly 40 characters; and it is a function of that encoding alone: two keys with the
  same encoding get the same fingerprint.
\<close>

theorem fingerprint_deterministic_40:
  "fst (getPublicKeyDetails P pub) = base64_encode (take 30 (sha256 (exportKey_spki P pub))) \<and>
   length (fst (getPublicKeyDetails P pub)) = 40 \<and>
   (exportKey_spki P pub = exportKey_spki P pub' \<longrightarrow>
    fst (getPublicKeyDetails P pub) = fst (getPublicKeyDetails P pub'))"
  by (simp add: getPublicKeyDetails_def Let_def arrayBufferToBase64_eq length_fingerprint)

theorem fingerprint_deterministic_40_witness:
  "length (fst (getPublicKeyDetails demo_platform 3)) = 40 \<and>
   fst (getPublicKeyDetails demo_platform 3) = fst (getPublicKeyDetails demo_platform 10)"
proof -
  have "exportKey_spki demo_platform 3 = exportKey_spki demo_platform 10"
    by (simp add: demo_platform_def)
  with fingerprint_deterministic_40 [of demo_platform 3 10] show ?thesis
    by blast
qed

text \<open>
  C7. The server's check agrees with the client's derivation: for every identifier and
  every key buffer, \<open>verifyFingerprint\<close> on the base64 text of the buffer is true exactly
  when the identifier is the client's fingerprint of that buffer; so it is on the pair
  that \<open>getPublicKeyDetails\<close> sends.
\<close>

theorem verifyFingerprint_agrees_with_client:
  "verifyFingerprint fingerprint (arrayBufferToBase64 publicKeyBuffer) =
     (fingerprint = arrayBufferToBase64 (take 30 (sha256 publicKeyBuffer))) \<and>
   verifyFingerprint fingerprint (snd (getPublicKeyDetails P pub)) =
     (fingerprint = fst (getPublicKeyDetails P pub))"
  by (auto simp add: verifyFingerprint_def getPublicKeyDetails_def Let_def
      base64ToArrayBuffer_encode Buffer_toString_base64_def arrayBufferToBase64_eq)

theorem verifyFingerprint_agrees_with_client_witness:
  "verifyFingerprint (fst demo_details) (snd demo_details) \<and>
   \<not> verifyFingerprint ''someone-else'' (snd demo_details)"
proof -
  have "''someone-else'' \<noteq> fst (getPublicKeyDetails demo_platform (publicKey demo_keyPair))"
    by (rule other_length_not_fingerprint) simp
  then show ?thesis
    using verifyFingerprint_agrees_with_client [of "fst demo_details" "[]" demo_platform
        "publicKey demo_keyPair"]
      verifyFingerprint_agrees_with_client [of "''someone-else''" "[]" demo_platform
        "publicKey demo_keyPair"]
    by (simp add: demo_details_def)
qed

section \<open>The key store\<close>

lemma createAndStoreKey_cases:
  "createAndStoreKey f keyPair idb =
     (if open_fails f then (Inl OpenError, idb)
      else if transaction_fails f then (Inl TransactionError, idb)
      else if request_fails f then (Inl RequestError, idb)
      else (Inr keyPair, idb((DB_NAME, STORE_NAME, KEY_ID) \<mapsto> keyPair)))"
  by (simp add: createAndStoreKey_def openDatabase_def)

lemma getStoredKey_try_cases:
  "getStoredKey_try f idb =
     (if open_fails f then Inl OpenError
      else if transaction_fails f then Inl TransactionError
      else if request_fails f then Inl RequestError
      else Inr (idb (DB_NAME, STORE_NAME, KEY_ID)))"
  by (simp add: getStoredKey_try_def openDatabase_def)

text \<open>
  C4, as the code has it. A failed read does not fail \<open>getOrCreateKey\<close>: \<open>getStoredKey\<close>
  catches the error and answers null, so \<open>createAndStoreKey\<close> runs; the call fails, with
  the store's error, exactly when that write fails too, and otherwise returns the newly
  generated pair, stored in the slot. When the slot holds a pair and the read works, the
  call returns that pair and leaves the store as it is (so every later call does the
  same); and after a successful creation the next call returns the pair created.
\<close>

theorem getOrCreateKey_store_failures:
  "(getStoredKey_try f_read idb = Inl e \<longrightarrow>
      getOrCreateKey f_read f_write fresh idb =
        (if open_fails f_write then (Inl OpenError, idb)
         else if transaction_fails f_write then (Inl TransactionError, idb)
         else if request_fails f_write then (Inl RequestError, idb)
         else (Inr fresh, idb((DB_NAME, STORE_NAME, KEY_ID) \<mapsto> fresh)))) \<and>
   (idb (DB_NAME, STORE_NAME, KEY_ID) = Some keyPair \<longrightarrow>
      getOrCreateKey no_faults f_write fresh idb = (Inr keyPair, idb)) \<and>
   getOrCreateKey no_faults f_write fresh' (snd (createAndStoreKey no_faults fresh idb)) =
     (Inr fresh, snd (createAndStoreKey no_faults fresh idb))"
  by (auto simp add: getOrCreateKey_def getStoredKey_def createAndStoreKey_cases
      getStoredKey_try_cases no_faults_def)

theorem getOrCreateKey_store_failures_witness:
  "getOrCreateKey read_fault read_fault demo_fresh demo_idb = (Inl RequestError, demo_idb) \<and>
   getOrCreateKey no_faults no_faults demo_fresh demo_idb = (Inr demo_keyPair, demo_idb)"
proof -
  have "getStoredKey_try read_fault demo_idb = Inl RequestError"
    by (simp add: getStoredKey_try_cases read_fault_def)
  moreover have "demo_idb (DB_NAME, STORE_NAME, KEY_ID) = Some demo_keyPair"
    by (simp add: demo_idb_def)
  ultimately show ?thesis
    using getOrCreateKey_store_failures [of read_fault demo_idb RequestError read_fault
        demo_fresh demo_keyPair demo_fresh]
      getOrCreateKey_store_failures [of read_fault demo_idb RequestError no_faults
        demo_fresh demo_keyPair demo_fresh]
    by (simp add: read_fault_def)
qed

text \<open>
  The claim as stated fails: the read of a store that holds \<open>demo_keyPair\<close> fails, the
  write that follows works, and \<open>getOrCreateKey\<close> returns a key pair (the new one, which
  replaces the stored one) instead of an error.
\<close>

theorem getOrCreateKey_read_failure_counterexample:
  "getStoredKey_try read_fault demo_idb = Inl RequestError \<and>
   getOrCreateKey read_fault no_faults demo_fresh demo_idb =
     (Inr demo_fresh, demo_idb((DB_NAME, STORE_NAME, KEY_ID) \<mapsto> demo_fresh))"
  by (simp add: getOrCreateKey_def getStoredKey_def createAndStoreKey_cases
      getStoredKey_try_cases no_faults_def read_fault_def)

section \<open>Signature verification\<close>

text \<open>
  C9. For every three strings \<open>verifySignature\<close> resolves to a boolean, never to an error:
  when the public key does not import, and when \<open>subtle.verify\<close> raises or answers
  false (as it does on a malformed signature), the result is false.
\<close>

theorem verifySignature_never_raises:
  "(\<exists>isValid. verifySignature P fullPublicKey challenge signature = Inr isValid) \<and>
   (importKey_spki P (base64ToArrayBuffer fullPublicKey) = None \<longrightarrow>
      verifySignature P fullPublicKey challenge signature = Inr False) \<and>
   (\<forall>k. importKey_spki P (base64ToArrayBuffer fullPublicKey) = Some k \<and>
        subtle_verify P k (base64ToArrayBuffer signature) (utf8_encode challenge) \<noteq> Some True \<longrightarrow>
      verifySignature P fullPublicKey challenge signature = Inr False)"
  by (auto simp add: verifySignature_def verifySignature_try_def split: option.splits sum.splits)

lemma base64ToArrayBuffer_junk: "base64ToArrayBuffer ''!!'' = []"
  by (simp add: base64ToArrayBuffer_def Buffer_from_base64_def sextets_of_def
      List.map_filter_def unbase64_def Buffer_toString_binary_def)

theorem verifySignature_never_raises_witness:
  "verifySignature demo_platform ''!!'' demo_challenge ''!!'' = Inr False"
proof -
  have "importKey_spki demo_platform (base64ToArrayBuffer ''!!'') = None"
    by (simp add: base64ToArrayBuffer_junk demo_platform_def)
  with verifySignature_never_raises [of demo_platform "''!!''" demo_challenge "''!!''"]
  show ?thesis by blast
qed

lemma verifySignature_signData:
  assumes "importKey_spki P spki = Some k"
    and "subtle_verify P k (subtle_sign P priv (utf8_encode challenge)) (utf8_encode challenge) =
         Some True"
  shows "verifySignature P (base64_encode spki) challenge (signData P priv challenge) = Inr True"
  using assms
  by (simp add: verifySignature_def verifySignature_try_def signData_def
      base64ToArrayBuffer_encode arrayBufferToBase64_eq)

lemma demo_signature_valid:
  "verifySignature demo_platform (snd demo_details) demo_challenge
     (signData demo_platform (privateKey demo_keyPair) demo_challenge) = Inr True"
  unfolding demo_details_eq
  by (rule verifySignature_signData [where k = 3]) (simp_all add: demo_platform_def demo_keyPair_def)

section \<open>Session tokens\<close>

lemma generateJWT_payload:
  "generateJWT P t1 t2 fingerprint =
     Token \<lparr>sub = fingerprint, iat = t1 div 1000, exp = t2 div 1000 + 3600\<rparr>
       (hs256 P (JWT_SECRET P) \<lparr>sub = fingerprint, iat = t1 div 1000, exp = t2 div 1000 + 3600\<rparr>)"
  by (simp add: generateJWT_def jwt_sign_def Let_def)

lemma verifyJWT_generateJWT:
  "verifyJWT P now (generateJWT P t1 t2 fingerprint) =
     (if now div 1000 < t2 div 1000 + 3600
      then Some \<lparr>sub = fingerprint, iat = t1 div 1000, exp = t2 div 1000 + 3600\<rparr> else None)"
  by (simp add: verifyJWT_def jwt_verify_def generateJWT_payload)

text \<open>
  C5 asks for \<open>exp = iat + 3600\<close> exactly. \<open>generateJWT\<close> reads the clock once for \<open>iat\<close>
  and again for \<open>exp\<close>: when the first read is the last millisecond of a second and the
  next read falls in the following second, the token has \<open>exp = iat + 3601\<close>.
\<close>

theorem generateJWT_across_a_second:
  "generateJWT demo_platform 1735689600999 1735689601000 (fst demo_details) =
     Token \<lparr>sub = fst demo_details, iat = 1735689600, exp = 1735689600 + 3601\<rparr>
       (hs256 demo_platform (JWT_SECRET demo_platform)
          \<lparr>sub = fst demo_details, iat = 1735689600, exp = 1735689600 + 3601\<rparr>)"
  by (simp add: generateJWT_payload)

text \<open>With both reads in one second the expiry is one hour after \<open>iat\<close>.\<close>

lemma generateJWT_same_second:
  "t1 div 1000 = t2 div 1000 \<Longrightarrow>
   generateJWT P t1 t2 fingerprint =
     Token \<lparr>sub = fingerprint, iat = t1 div 1000, exp = t1 div 1000 + 3600\<rparr>
       (hs256 P (JWT_SECRET P) \<lparr>sub = fingerprint, iat = t1 div 1000, exp = t1 div 1000 + 3600\<rparr>)"
  by (simp add: generateJWT_payload)

section \<open>The stores\<close>

lemma challenges_delete_simps:
  "inMemoryChallenges (challenges_delete fp s) = (inMemoryChallenges s)(fp := None)"
  "inMemoryUsers (challenges_delete fp s) = inMemoryUsers s"
  "timers (challenges_delete fp s) = timers s"
  "sessions (challenges_delete fp s) = sessions s"
  by (simp_all add: challenges_delete_def)

lemma challenges_set_simps:
  "inMemoryChallenges (challenges_set impl now fp d s) = (inMemoryChallenges s)(fp \<mapsto> d)"
  "inMemoryUsers (challenges_set impl now fp d s) = inMemoryUsers s"
  by (cases impl; simp add: challenges_set_def)+

lemma challenges_get_absent:
  "inMemoryChallenges s fp = None \<Longrightarrow> challenges_get impl now fp s = (None, s)"
  by (cases impl) (simp_all add: challenges_get_def)

lemma challenges_get_present:
  "inMemoryChallenges s fp = Some d \<Longrightarrow>
   challenges_get impl now fp s =
     (if impl = ExpiringStorage \<and> now > data_timestamp d + data_expiresIn d
      then (None, challenges_delete fp s) else (Some d, s))"
  by (cases impl) (simp_all add: challenges_get_def Let_def)

text \<open>A timer only deletes: it registers nobody and revives no challenge.\<close>

lemma fold_delete_users:
  "inMemoryUsers (fold (\<lambda>timer. challenges_delete (snd timer)) due s) = inMemoryUsers s"
  by (induction due arbitrary: s) (auto simp add: challenges_delete_simps)

lemma fold_delete_absent:
  "inMemoryChallenges s fp = None \<Longrightarrow>
   inMemoryChallenges (fold (\<lambda>timer. challenges_delete (snd timer)) due s) fp = None"
  by (induction due arbitrary: s) (auto simp add: challenges_delete_simps)

lemma run_timers_users: "inMemoryUsers (run_timers now s) = inMemoryUsers s"
  by (simp add: run_timers_def Let_def fold_delete_users)

lemma run_timers_absent:
  "inMemoryChallenges s fp = None \<Longrightarrow> inMemoryChallenges (run_timers now s) fp = None"
  by (simp add: run_timers_def Let_def fold_delete_absent)

text \<open>A timer that is due deletes the challenge of its fingerprint.\<close>

lemma fold_delete_due:
  "fp \<in> snd ` set due \<Longrightarrow>
   inMemoryChallenges (fold (\<lambda>timer. challenges_delete (snd timer)) due s) fp = None"
proof (induction due arbitrary: s)
  case Nil
  then show ?case by simp
next
  case (Cons x due)
  show ?case
  proof (cases "snd x = fp")
    case True
    then have "inMemoryChallenges (challenges_delete (snd x) s) fp = None"
      by (simp add: challenges_delete_simps)
    then show ?thesis
      by (simp add: fold_delete_absent)
  next
    case False
    with Cons.prems have "fp \<in> snd ` set due" by auto
    from Cons.IH [OF this] show ?thesis by simp
  qed
qed

lemma run_timers_due:
  assumes "(t, fp) \<in> set (timers s)" and "t \<le> now"
  shows "inMemoryChallenges (run_timers now s) fp = None"
proof -
  have "fp \<in> snd ` set (filter (\<lambda>timer. fst timer \<le> now) (timers s))"
    using assms by force
  then show ?thesis
    by (simp add: run_timers_def Let_def fold_delete_due)
qed

lemma challenges_set_timer:
  "(now + data_expiresIn d, fp) \<in> set (timers (challenges_set ExpiringStorage now fp d s))"
  by (simp add: challenges_set_def)

lemma createUserSession_stores:
  "createUserSession session now fp s = Inr s3 \<Longrightarrow>
   inMemoryChallenges s3 = inMemoryChallenges s \<and> inMemoryUsers s3 = inMemoryUsers s \<and>
   timers s3 = timers s"
  by (auto simp add: createUserSession_def Let_def split: option.splits)

section \<open>The challenge endpoint\<close>

lemma POST_challenge_accepts:
  assumes "body ''fingerprint'' = Some fp" "body ''fullPublicKey'' = Some pk" "fp \<noteq> []" "pk \<noteq> []"
    and "verifyFingerprint fp pk"
  shows "POST_challenge impl env (Some body) s =
     (\<lparr>status = 200, json = ChallengeReply (Buffer_toString_base64 (challengeBytes env))\<rparr>,
      challenges_set impl (t_stamp env) fp
        \<lparr>data_fingerprint = fp, data_challenge = Buffer_toString_base64 (challengeBytes env),
         data_timestamp = t_stamp env, data_expiresIn = 120000\<rparr>
        (case inMemoryUsers s fp of
           None \<Rightarrow>
             users_set fp
               \<lparr>user_fingerprint = fp, user_publicKey = pk, user_createdAt = now_iso env\<rparr> s
         | Some user \<Rightarrow> s))"
  using assms by (simp add: POST_challenge_def Let_def users_get_def)

lemma demo_challenge_run:
  "POST_challenge impl demo_challenge_env (Some demo_challenge_body) empty_server =
     (\<lparr>status = 200, json = ChallengeReply demo_challenge\<rparr>,
      challenges_set impl 1735689600000 (fst demo_details)
        \<lparr>data_fingerprint = fst demo_details, data_challenge = demo_challenge,
         data_timestamp = 1735689600000, data_expiresIn = 120000\<rparr>
        (users_set (fst demo_details)
           \<lparr>user_fingerprint = fst demo_details, user_publicKey = snd demo_details,
            user_createdAt = ''2025-01-01T00:00:00.000Z''\<rparr> empty_server))"
proof -
  have "verifyFingerprint (fst demo_details) (snd demo_details)"
    by (simp add: demo_details_def verifyFingerprint_details)
  then show ?thesis
    using POST_challenge_accepts [of demo_challenge_body "fst demo_details" "snd demo_details"
        impl demo_challenge_env empty_server]
    by (simp add: demo_challenge_body_def demo_details_eq demo_challenge_def
        demo_challenge_env_def empty_server_def)
qed

lemma demo_issued_stores:
  "inMemoryUsers (demo_issued impl) (fst demo_details) =
     Some \<lparr>user_fingerprint = fst demo_details, user_publicKey = snd demo_details,
           user_createdAt = ''2025-01-01T00:00:00.000Z''\<rparr>"
  "inMemoryChallenges (demo_issued impl) (fst demo_details) =
     Some \<lparr>data_fingerprint = fst demo_details, data_challenge = demo_challenge,
           data_timestamp = 1735689600000, data_expiresIn = 120000\<rparr>"
  by (simp_all add: demo_issued_def demo_challenge_run challenges_set_simps users_set_def)

text \<open>
  The handler counts a field that is absent or empty as missing: it answers 400 and
  changes nothing.
\<close>

lemma POST_challenge_missing:
  assumes "body ''fingerprint'' = None \<or> body ''fingerprint'' = Some [] \<or>
           body ''fullPublicKey'' = None \<or> body ''fullPublicKey'' = Some []"
  shows "POST_challenge impl env (Some body) s =
           (\<lparr>status = 400, json = Error ''Missing fingerprint or fullPublicKey''\<rparr>, s)"
  using assms by (auto simp add: POST_challenge_def split: option.splits)

text \<open>
  C3. A field is submitted when the handler does not count it missing: it is present and
  not empty. When the submitted identifier is not the fingerprint derived from the
  submitted public key, \<open>/api/challenge\<close> answers 400, fingerprint does not match public
  key, and leaves the whole server state as it was: no user is registered, no challenge
  stored, no timer set.
\<close>

theorem challenge_mismatch_rejected:
  assumes "body ''fingerprint'' = Some fp" and "body ''fullPublicKey'' = Some pk"
    and "fp \<noteq> []" and "pk \<noteq> []"
    and "fp \<noteq> Buffer_toString_base64 (take 30 (sha256 (base64ToArrayBuffer pk)))"
  shows "POST_challenge impl env (Some body) s =
           (\<lparr>status = 400, json = Error ''Fingerprint does not match public key''\<rparr>, s)"
  using assms by (auto simp add: POST_challenge_def verifyFingerprint_def Let_def)

theorem challenge_mismatch_rejected_witness:
  "POST_challenge MapStorage demo_challenge_env
     (Some [''fingerprint'' \<mapsto> ''someone-else'', ''fullPublicKey'' \<mapsto> snd demo_details])
     empty_server =
   (\<lparr>status = 400, json = Error ''Fingerprint does not match public key''\<rparr>, empty_server)"
  using challenge_mismatch_rejected [of "[''fingerprint'' \<mapsto> ''someone-else'',
      ''fullPublicKey'' \<mapsto> snd demo_details]" "''someone-else''" "snd demo_details"
      MapStorage demo_challenge_env empty_server]
    short_fingerprint_mismatch [of "''someone-else''" "base64ToArrayBuffer (snd demo_details)"]
  by (simp add: demo_details_eq)

section \<open>The authenticate endpoint\<close>

text \<open>
  C10. A request to \<open>/api/authenticate\<close> whose fingerprint or signature is absent or empty
  is answered 400, whatever the stores hold, and the server state is unchanged.
\<close>

theorem authenticate_missing_fields:
  assumes "body ''fingerprint'' = None \<or> body ''fingerprint'' = Some [] \<or>
           body ''signature'' = None \<or> body ''signature'' = Some []"
  shows "POST_authenticate impl P env (Some body) s =
           (\<lparr>status = 400, json = Error ''Missing fingerprint or signature''\<rparr>, s)"
  using assms by (auto simp add: POST_authenticate_def split: option.splits)

theorem authenticate_missing_fields_witness:
  "POST_authenticate MapStorage demo_platform (demo_auth_env 1735689601000)
     (Some [''fingerprint'' \<mapsto> fst demo_details]) (demo_issued MapStorage) =
   (\<lparr>status = 400, json = Error ''Missing fingerprint or signature''\<rparr>, demo_issued MapStorage)"
  using authenticate_missing_fields [of "[''fingerprint'' \<mapsto> fst demo_details]"
      MapStorage demo_platform "demo_auth_env 1735689601000" "demo_issued MapStorage"]
  by simp

lemma POST_authenticate_no_challenge:
  assumes "body ''fingerprint'' = Some fp" "body ''signature'' = Some sig" "fp \<noteq> []" "sig \<noteq> []"
    and "inMemoryUsers s fp = Some user" "inMemoryChallenges s fp = None"
  shows "POST_authenticate impl P env (Some body) s =
           (\<lparr>status = 401, json = Error ''No challenge found''\<rparr>, s)"
  using assms by (simp add: POST_authenticate_def users_get_def challenges_get_absent)

text \<open>What the handler does once the user and a stored challenge are found.\<close>

lemma POST_authenticate_found:
  assumes "body ''fingerprint'' = Some fp" "body ''signature'' = Some sig" "fp \<noteq> []" "sig \<noteq> []"
    and "inMemoryUsers s fp = Some user" "inMemoryChallenges s fp = Some d"
  shows "POST_authenticate impl P env (Some body) s =
     (if impl = ExpiringStorage \<and> t_get env > data_timestamp d + data_expiresIn d
      then (\<lparr>status = 401, json = Error ''No challenge found''\<rparr>, challenges_delete fp s)
      else if t_check env - data_timestamp d > data_expiresIn d
      then (\<lparr>status = 401, json = Error ''Challenge expired''\<rparr>, challenges_delete fp s)
      else if verifySignature P (user_publicKey user) (data_challenge d) sig \<noteq> Inr True
      then (\<lparr>status = 401, json = Error ''Invalid signature''\<rparr>, challenges_delete fp s)
      else (case createUserSession (session_id env) (t_session env) fp (challenges_delete fp s) of
              Inl e \<Rightarrow> (internal_error, challenges_delete fp s)
            | Inr s3 \<Rightarrow>
                (\<lparr>status = 200, json = JwtReply (generateJWT P (t_iat env) (t_exp env) fp)\<rparr>,
                 s3)))"
  using assms
  by (auto simp add: POST_authenticate_def users_get_def challenges_get_present Let_def
      verifySignature_def split: sum.splits)

lemma POST_authenticate_users:
  "inMemoryUsers (snd (POST_authenticate impl P env request s)) = inMemoryUsers s"
proof (cases request)
  case None
  then show ?thesis by (simp add: POST_authenticate_def)
next
  case (Some body)
  show ?thesis
  proof (cases "body ''fingerprint''")
    case None
    with Some show ?thesis by (simp add: POST_authenticate_def)
  next
    case fp: (Some fp)
    show ?thesis
    proof (cases "body ''signature''")
      case None
      with Some fp show ?thesis by (simp add: POST_authenticate_def)
    next
      case sig: (Some sig)
      show ?thesis
      proof (cases "fp = [] \<or> sig = []")
        case True
        with Some fp sig show ?thesis by (auto simp add: POST_authenticate_def)
      next
        case wf: False
        show ?thesis
        proof (cases "inMemoryUsers s fp")
          case None
          with Some fp sig wf show ?thesis by (simp add: POST_authenticate_def users_get_def)
        next
          case user: (Some user)
          show ?thesis
          proof (cases "inMemoryChallenges s fp")
            case None
            with Some fp sig wf user show ?thesis
              by (simp add: POST_authenticate_no_challenge)
          next
            case (Some d)
            with \<open>request = Some body\<close> fp sig wf user show ?thesis
              by (auto simp add: POST_authenticate_found challenges_delete_simps
                  dest: createUserSession_stores split: sum.splits)
          qed
        qed
      qed
    qed
  qed
qed

text \<open>Every attempt that finds a stored challenge deletes it, whatever it answers.\<close>

lemma POST_authenticate_consumes:
  assumes "body ''fingerprint'' = Some fp" "body ''signature'' = Some sig" "fp \<noteq> []" "sig \<noteq> []"
    and "inMemoryUsers s fp = Some user" "inMemoryChallenges s fp = Some d"
  shows "inMemoryChallenges (snd (POST_authenticate impl P env (Some body) s)) fp = None"
  using assms
  by (auto simp add: POST_authenticate_found challenges_delete_simps
      dest: createUserSession_stores split: sum.splits)

text \<open>
  A response that the verification, or the expiry check, produced: the request was well
  formed, its user is registered, and the challenge is gone.
\<close>

lemma POST_authenticate_attempted:
  assumes run: "POST_authenticate impl P env (Some body) s = (r, s')"
    and fp: "body ''fingerprint'' = Some fp"
    and r: "status r = 200 \<or> json r = Error ''Invalid signature'' \<or>
            json r = Error ''Challenge expired''"
  shows "fp \<noteq> [] \<and> (\<exists>user. inMemoryUsers s' fp = Some user) \<and> inMemoryChallenges s' fp = None"
proof -
  obtain sig where sig: "body ''signature'' = Some sig"
    using run fp r by (cases "body ''signature''") (auto simp add: POST_authenticate_def)
  have wf: "fp \<noteq> []" "sig \<noteq> []"
    using run fp sig r by (auto simp add: POST_authenticate_def split: if_splits)
  obtain user where user: "inMemoryUsers s fp = Some user"
    using run fp sig wf r
    by (cases "inMemoryUsers s fp") (auto simp add: POST_authenticate_def users_get_def)
  obtain d where d: "inMemoryChallenges s fp = Some d"
    using run fp sig wf user r
    by (cases "inMemoryChallenges s fp") (auto simp add: POST_authenticate_no_challenge)
  have "inMemoryChallenges s' fp = None"
    using POST_authenticate_consumes [OF fp sig wf user d, of impl P env] run by simp
  moreover have "inMemoryUsers s' = inMemoryUsers s"
    using POST_authenticate_users [of impl P env "Some body" s] run by simp
  ultimately show ?thesis using wf user by simp
qed

lemma POST_authenticate_needs_challenge:
  assumes "body ''fingerprint'' = Some fp" and "inMemoryChallenges s fp = None"
  shows "status (fst (POST_authenticate impl P env (Some body) s)) \<noteq> 200"
proof (cases "body ''signature''")
  case None
  with assms show ?thesis by (simp add: POST_authenticate_def)
next
  case (Some sig)
  show ?thesis
  proof (cases "fp = [] \<or> sig = []")
    case True
    with assms Some show ?thesis by (auto simp add: POST_authenticate_def)
  next
    case False
    show ?thesis
    proof (cases "inMemoryUsers s fp")
      case None
      with assms Some False show ?thesis by (simp add: POST_authenticate_def users_get_def)
    next
      case user: (Some user)
      with assms Some False show ?thesis by (simp add: POST_authenticate_no_challenge)
    qed
  qed
qed

lemma demo_auth_body_fields:
  "demo_auth_body ''fingerprint'' = Some (fst demo_details)"
  "demo_auth_body ''signature'' =
     Some (signData demo_platform (privateKey demo_keyPair) demo_challenge)"
  "signData demo_platform (privateKey demo_keyPair) demo_challenge \<noteq> []"
  by (simp_all add: demo_auth_body_def signData_def arrayBufferToBase64_eq base64_encode_nonempty
      demo_platform_def)

lemma demo_first_attempt:
  "POST_authenticate impl demo_platform (demo_auth_env 1735689601000) (Some demo_auth_body)
     (demo_issued impl) =
     (\<lparr>status = 200,
        json = JwtReply (generateJWT demo_platform 1735689601000 1735689601000 (fst demo_details))\<rparr>,
      (challenges_delete (fst demo_details) (demo_issued impl))
        \<lparr>sessions := (sessions (challenges_delete (fst demo_details) (demo_issued impl)))
           (''session-1'' \<mapsto> \<lparr>session_fingerprint = fst demo_details,
              session_authenticatedAt = 1735689601000, session_expiresAt = 1735693201000\<rparr>)\<rparr>)"
  using POST_authenticate_found [OF demo_auth_body_fields(1,2) demo_details_eq(2)
      demo_auth_body_fields(3) demo_issued_stores, of impl demo_platform "demo_auth_env 1735689601000"]
  by (simp add: demo_auth_env_def demo_signature_valid createUserSession_def)

text \<open>
  Requests handled in turn. When a request finds the user and a stored challenge, then
  whatever it answers (200, invalid signature, challenge expired, or 500 when the session
  cannot be set), the next well-formed request for the identifier, with any signature
  at any time, before or after the timers due have run, is answered no challenge found.
\<close>

lemma authenticate_in_turn:
  assumes "body ''fingerprint'' = Some fp" and "body ''signature'' = Some sig"
    and "fp \<noteq> []" and "sig \<noteq> []"
    and "inMemoryUsers s fp = Some user" and "inMemoryChallenges s fp = Some d"
    and "body' ''fingerprint'' = Some fp" and "body' ''signature'' = Some sig'" and "sig' \<noteq> []"
    and "s' = snd (POST_authenticate impl P env (Some body) s)"
  shows "POST_authenticate impl P env' (Some body') s' =
           (\<lparr>status = 401, json = Error ''No challenge found''\<rparr>, s') \<and>
         POST_authenticate impl P env' (Some body') (run_timers t s') =
           (\<lparr>status = 401, json = Error ''No challenge found''\<rparr>, run_timers t s')"
proof -
  have gone: "inMemoryChallenges s' fp = None"
    using POST_authenticate_consumes [OF assms(1-6), of impl P env] assms(10) by simp
  have user': "inMemoryUsers s' fp = Some user"
    using POST_authenticate_users [of impl P env "Some body" s] assms(5,10) by simp
  have "inMemoryUsers (run_timers t s') fp = Some user"
    using user' by (simp add: run_timers_users)
  moreover have "inMemoryChallenges (run_timers t s') fp = None"
    using gone by (rule run_timers_absent)
  ultimately show ?thesis
    using POST_authenticate_no_challenge [OF assms(7,8,3,9) user' gone,
        where impl = impl and P = P and env = env']
      POST_authenticate_no_challenge [OF assms(7,8,3,9), of "run_timers t s'" user,
        where impl = impl and P = P and env = env']
    by simp
qed

text \<open>
  The handler in steps is the handler: a request resumed six times with nothing in
  between has the response and leaves the state of \<open>POST_authenticate\<close>.
\<close>

lemma auth_run_Done: "auth_run impl P env n (Done r) s = (Done r, s)"
  by (induction n) simp_all

lemma auth_run_POST_authenticate:
  "auth_run impl P env 6 (Received request) s =
     (Done (fst (POST_authenticate impl P env request s)),
      snd (POST_authenticate impl P env request s))"
  by (auto simp add: eval_nat_numeral POST_authenticate_def auth_run_Done Let_def
      split: option.splits prod.splits sum.splits)

lemma advance_0:
  "advance impl P 0 ((envA, pcA) # rest, s) =
     ((envA, fst (auth_step impl P envA pcA s)) # rest, snd (auth_step impl P envA pcA s))"
  by (simp add: advance_def split: prod.splits)

lemma advance_1:
  "advance impl P (Suc 0) (a # (envB, pcB) # rest, s) =
     (a # (envB, fst (auth_step impl P envB pcB s)) # rest, snd (auth_step impl P envB pcB s))"
  by (simp add: advance_def split: prod.splits)

text \<open>
  Two requests for one identifier, both with the valid signature, in flight together
  while its challenge is live. Resumed in turn, both pass \<open>await challenges.get\<close> before
  either reaches \<open>challenges.delete\<close>: both read the nonce, both verify, both are answered
  200 with a token.
\<close>

lemma race_two_successes:
  assumes "body ''fingerprint'' = Some fp" and "body ''signature'' = Some sig"
    and "fp \<noteq> []" and "sig \<noteq> []"
    and "inMemoryUsers s fp = Some user" and "inMemoryChallenges s fp = Some d"
    and "\<not> t_get envA > data_timestamp d + data_expiresIn d"
    and "\<not> t_check envA - data_timestamp d > data_expiresIn d"
    and "\<not> t_get envB > data_timestamp d + data_expiresIn d"
    and "\<not> t_check envB - data_timestamp d > data_expiresIn d"
    and "verifySignature P (user_publicKey user) (data_challenge d) sig = Inr True"
    and "session_id envA = Some sidA" and "session_id envB = Some sidB"
  shows "map snd (fst (interleave impl P [0, 1, 0, 1, 0, 1, 0, 1, 0, 1, 0, 1]
            [(envA, Received (Some body)), (envB, Received (Some body))] s)) =
         [Done \<lparr>status = 200, json = JwtReply (generateJWT P (t_iat envA) (t_exp envA) fp)\<rparr>,
          Done \<lparr>status = 200, json = JwtReply (generateJWT P (t_iat envB) (t_exp envB) fp)\<rparr>]"
  using assms
  by (simp add: interleave_def advance_0 advance_1 users_get_def challenges_get_present
      challenges_delete_simps createUserSession_def Let_def)

text \<open>The same two requests, the second resumed only after the first was answered.\<close>

lemma in_turn_one_success:
  assumes "body ''fingerprint'' = Some fp" and "body ''signature'' = Some sig"
    and "fp \<noteq> []" and "sig \<noteq> []"
    and "inMemoryUsers s fp = Some user" and "inMemoryChallenges s fp = Some d"
    and "\<not> t_get envA > data_timestamp d + data_expiresIn d"
    and "\<not> t_check envA - data_timestamp d > data_expiresIn d"
    and "verifySignature P (user_publicKey user) (data_challenge d) sig = Inr True"
    and "session_id envA = Some sidA"
  shows "map snd (fst (interleave impl P [0, 0, 0, 0, 0, 0, 1, 1, 1, 1, 1, 1]
            [(envA, Received (Some body)), (envB, Received (Some body))] s)) =
         [Done \<lparr>status = 200, json = JwtReply (generateJWT P (t_iat envA) (t_exp envA) fp)\<rparr>,
          Done \<lparr>status = 401, json = Error ''No challenge found''\<rparr>]"
  using assms
  by (simp add: interleave_def advance_0 advance_1 users_get_def challenges_get_present
      challenges_get_absent challenges_delete_simps createUserSession_def Let_def)

text \<open>
  C1 asks that at most one authenticate attempt act on a challenge: never two successes
  from one nonce. The handler reads the challenge, is suspended at the \<open>await\<close>, and only
  then deletes it. On the server that issued one challenge to the demo client, two
  requests with the client's valid signature, resumed in turn, are both answered 200,
  each with its token, with the plain map and with the expiring storage alike.
\<close>

theorem racing_requests_two_successes:
  "map snd (fst (interleave MapStorage demo_platform [0, 1, 0, 1, 0, 1, 0, 1, 0, 1, 0, 1]
      [(demo_auth_env 1735689601000, Received (Some demo_auth_body)),
       (demo_auth_env 1735689601001, Received (Some demo_auth_body))] (demo_issued MapStorage))) =
     [Done \<lparr>status = 200, json = JwtReply
        (generateJWT demo_platform 1735689601000 1735689601000 (fst demo_details))\<rparr>,
      Done \<lparr>status = 200, json = JwtReply
        (generateJWT demo_platform 1735689601001 1735689601001 (fst demo_details))\<rparr>] \<and>
   map snd (fst (interleave ExpiringStorage demo_platform [0, 1, 0, 1, 0, 1, 0, 1, 0, 1, 0, 1]
      [(demo_auth_env 1735689601000, Received (Some demo_auth_body)),
       (demo_auth_env 1735689601001, Received (Some demo_auth_body))]
      (demo_issued ExpiringStorage))) =
     [Done \<lparr>status = 200, json = JwtReply
        (generateJWT demo_platform 1735689601000 1735689601000 (fst demo_details))\<rparr>,
      Done \<lparr>status = 200, json = JwtReply
        (generateJWT demo_platform 1735689601001 1735689601001 (fst demo_details))\<rparr>]"
proof -
  have "map snd (fst (interleave impl demo_platform [0, 1, 0, 1, 0, 1, 0, 1, 0, 1, 0, 1]
      [(demo_auth_env 1735689601000, Received (Some demo_auth_body)),
       (demo_auth_env 1735689601001, Received (Some demo_auth_body))] (demo_issued impl))) =
     [Done \<lparr>status = 200, json = JwtReply
        (generateJWT demo_platform 1735689601000 1735689601000 (fst demo_details))\<rparr>,
      Done \<lparr>status = 200, json = JwtReply
        (generateJWT demo_platform 1735689601001 1735689601001 (fst demo_details))\<rparr>]" for impl
    using race_two_successes [OF demo_auth_body_fields(1,2) demo_details_eq(2)
        demo_auth_body_fields(3) demo_issued_stores,
        where impl = impl and P = demo_platform and envA = "demo_auth_env 1735689601000"
          and envB = "demo_auth_env 1735689601001"]
    by (simp add: demo_auth_env_def demo_signature_valid)
  then show ?thesis by simp
qed

text \<open>
  C2, as the code has it. A request that arrives when the handler's clock is past the
  stored challenge's time to live is answered 401 and the challenge is deleted, whatever
  the signature. With the plain map the error is challenge expired. With the expiring
  storage, \<open>challenges.get\<close> has dropped the entry before the handler looks, and the error
  is no challenge found; challenge expired remains only when the time to live ends
  between the two reads of the clock.
\<close>

theorem expired_challenge_rejected:
  assumes "body ''fingerprint'' = Some fp" and "body ''signature'' = Some sig"
    and "fp \<noteq> []" and "sig \<noteq> []"
    and "inMemoryUsers s fp = Some user" and "inMemoryChallenges s fp = Some d"
    and "t_check env - data_timestamp d > data_expiresIn d"
  shows "status (fst (POST_authenticate impl P env (Some body) s)) = 401 \<and>
         json (fst (POST_authenticate impl P env (Some body) s)) =
           (if impl = ExpiringStorage \<and> t_get env > data_timestamp d + data_expiresIn d
            then Error ''No challenge found'' else Error ''Challenge expired'') \<and>
         inMemoryChallenges (snd (POST_authenticate impl P env (Some body) s)) fp = None"
  using assms by (simp add: POST_authenticate_found challenges_delete_simps)

theorem expired_challenge_rejected_witness:
  "POST_authenticate MapStorage demo_platform (demo_auth_env 1735689720001) (Some demo_auth_body)
     (demo_issued MapStorage) =
   (\<lparr>status = 401, json = Error ''Challenge expired''\<rparr>,
    challenges_delete (fst demo_details) (demo_issued MapStorage))"
proof -
  let ?run = "POST_authenticate MapStorage demo_platform (demo_auth_env 1735689720001)
     (Some demo_auth_body) (demo_issued MapStorage)"
  have "status (fst ?run) = 401 \<and> json (fst ?run) = Error ''Challenge expired'' \<and>
      inMemoryChallenges (snd ?run) (fst demo_details) = None"
    using expired_challenge_rejected [OF demo_auth_body_fields(1,2) demo_details_eq(2)
      demo_auth_body_fields(3) demo_issued_stores, of "demo_auth_env 1735689720001"
      MapStorage demo_platform]
    by (simp add: demo_auth_env_def)
  moreover have "snd ?run = challenges_delete (fst demo_details) (demo_issued MapStorage)"
    using POST_authenticate_found [OF demo_auth_body_fields(1,2) demo_details_eq(2)
      demo_auth_body_fields(3) demo_issued_stores, of MapStorage demo_platform
      "demo_auth_env 1735689720001"]
    by (simp add: demo_auth_env_def)
  ultimately show ?thesis
    by (cases ?run, cases "fst ?run") auto
qed

text \<open>
  The claim as stated fails with the expiring storage: the challenge was issued at
  1735689600000 with 120000 ms to live and never consumed, the request arrives at
  1735689720001 with the valid signature, and the answer is no challenge found, not
  challenge expired.
\<close>

theorem expired_challenge_counterexample:
  "verifySignature demo_platform (snd demo_details) demo_challenge
     (signData demo_platform (privateKey demo_keyPair) demo_challenge) = Inr True \<and>
   inMemoryChallenges (demo_issued ExpiringStorage) (fst demo_details) =
     Some \<lparr>data_fingerprint = fst demo_details, data_challenge = demo_challenge,
           data_timestamp = 1735689600000, data_expiresIn = 120000\<rparr> \<and>
   POST_authenticate ExpiringStorage demo_platform (demo_auth_env 1735689720001)
     (Some demo_auth_body) (demo_issued ExpiringStorage) =
   (\<lparr>status = 401, json = Error ''No challenge found''\<rparr>,
    challenges_delete (fst demo_details) (demo_issued ExpiringStorage))"
  using POST_authenticate_found [OF demo_auth_body_fields(1,2) demo_details_eq(2)
      demo_auth_body_fields(3) demo_issued_stores, of ExpiringStorage demo_platform
      "demo_auth_env 1735689720001"]
  by (simp add: demo_auth_env_def demo_signature_valid demo_issued_stores)

text \<open>
  With the expiring storage the timer set with the challenge leads to the same answer:
  once it has run, the request finds no challenge.
\<close>

lemma authenticate_after_timer:
  assumes "body ''fingerprint'' = Some fp" and "body ''signature'' = Some sig"
    and "fp \<noteq> []" and "sig \<noteq> []"
    and "inMemoryUsers s fp = Some user" and "(t, fp) \<in> set (timers s)" and "t \<le> now"
  shows "POST_authenticate impl P env (Some body) (run_timers now s) =
           (\<lparr>status = 401, json = Error ''No challenge found''\<rparr>, run_timers now s)"
  using assms
  by (simp add: POST_authenticate_no_challenge run_timers_users run_timers_due)

section \<open>The whole exchange\<close>

lemma POST_authenticate_token:
  assumes "body ''fingerprint'' = Some fp"
    and "POST_authenticate impl P env (Some body) s = (r, s')" and "json r = JwtReply jwt"
  shows "jwt = generateJWT P (t_iat env) (t_exp env) fp"
  using assms
  by (auto simp add: POST_authenticate_def internal_error_def Let_def
      split: option.splits if_splits prod.splits sum.splits)

text \<open>A token the client's \<open>authenticate\<close> returns was generated for its own fingerprint.\<close>

lemma authenticate_token:
  assumes "authenticate impl P f_read f_write fresh cenv aenv idb s = (Inr jwt, idb', s')"
  shows "\<exists>keyPair. getOrCreateKey f_read f_write fresh idb = (Inr keyPair, idb') \<and>
           jwt = generateJWT P (t_iat aenv) (t_exp aenv)
                   (fst (getPublicKeyDetails P (publicKey keyPair)))"
proof -
  obtain res idb1 where key: "getOrCreateKey f_read f_write fresh idb = (res, idb1)"
    by (cases "getOrCreateKey f_read f_write fresh idb")
  obtain keyPair where res: "res = Inr keyPair"
    using assms key by (cases res) (simp_all add: authenticate_def)
  obtain fp pk where det: "getPublicKeyDetails P (publicKey keyPair) = (fp, pk)"
    by (cases "getPublicKeyDetails P (publicKey keyPair)")
  obtain r1 s1 where ch: "POST_challenge impl cenv
      (Some [''fingerprint'' \<mapsto> fp, ''fullPublicKey'' \<mapsto> pk]) s = (r1, s1)"
    by (cases "POST_challenge impl cenv
      (Some [''fingerprint'' \<mapsto> fp, ''fullPublicKey'' \<mapsto> pk]) s")
  have ok1: "response_ok r1"
    using assms key res det ch by (auto simp add: authenticate_def split: if_splits)
  obtain challenge where c: "json r1 = ChallengeReply challenge"
    using assms key res det ch ok1 by (cases "json r1") (simp_all add: authenticate_def)
  obtain r2 s2 where au: "POST_authenticate impl P aenv
      (Some [''fingerprint'' \<mapsto> fp,
             ''signature'' \<mapsto> signData P (privateKey keyPair) challenge]) s1 = (r2, s2)"
    by (cases "POST_authenticate impl P aenv
      (Some [''fingerprint'' \<mapsto> fp,
             ''signature'' \<mapsto> signData P (privateKey keyPair) challenge]) s1")
  have ok2: "response_ok r2"
    using assms key res det ch ok1 c au by (auto simp add: authenticate_def Let_def split: if_splits)
  have out: "json r2 = JwtReply jwt \<and> idb1 = idb'"
    using assms key res det ch ok1 c au ok2
    by (cases "json r2") (simp_all add: authenticate_def Let_def)
  have "jwt = generateJWT P (t_iat aenv) (t_exp aenv) fp"
    using POST_authenticate_token [OF _ au, of fp jwt] out by simp
  then show ?thesis using key res det out by simp
qed

lemma demo_getOrCreateKey:
  "getOrCreateKey no_faults no_faults demo_keyPair Map.empty =
     (Inr demo_keyPair, [(DB_NAME, STORE_NAME, KEY_ID) \<mapsto> demo_keyPair])"
  by (simp add: getOrCreateKey_def getStoredKey_def getStoredKey_try_cases
      createAndStoreKey_cases no_faults_def)

text \<open>The demo client, on a new browser profile and a new server, gets its token.\<close>

lemma demo_authenticate:
  "authenticate impl demo_platform no_faults no_faults demo_keyPair demo_challenge_env
     (demo_auth_env 1735689601000) Map.empty empty_server =
   (Inr (generateJWT demo_platform 1735689601000 1735689601000 (fst demo_details)),
    [(DB_NAME, STORE_NAME, KEY_ID) \<mapsto> demo_keyPair],
    snd (POST_authenticate impl demo_platform (demo_auth_env 1735689601000) (Some demo_auth_body)
       (demo_issued impl)))"
proof -
  have det: "getPublicKeyDetails demo_platform (publicKey demo_keyPair) =
      (fst demo_details, snd demo_details)"
    by (simp add: demo_details_def)
  have ch: "POST_challenge impl demo_challenge_env (Some demo_challenge_body) empty_server =
      (\<lparr>status = 200, json = ChallengeReply demo_challenge\<rparr>, demo_issued impl)"
    by (simp add: demo_issued_def demo_challenge_run)
  show ?thesis
    by (simp add: authenticate_def demo_getOrCreateKey det case_prod_beta
        ch [unfolded demo_challenge_body_def] response_ok_def demo_challenge_def [symmetric]
        demo_first_attempt demo_first_attempt [unfolded demo_auth_body_def])
qed

text \<open>
  C8. When the client's \<open>authenticate\<close> (key pair, fingerprint, challenge request,
  signature, authenticate request) returns a token, \<open>verifyJWT\<close> on that token, at any
  time before the token expires, returns a payload whose subject is the fingerprint
  derived from the client's public key; from the expiry on it returns null.
\<close>

theorem token_subject_is_identifier:
  assumes "authenticate impl P f_read f_write fresh cenv aenv idb s = (Inr jwt, idb', s')"
  shows "\<exists>keyPair. fst (getOrCreateKey f_read f_write fresh idb) = Inr keyPair \<and>
           (\<forall>now. verifyJWT P now jwt =
              (if now div 1000 < t_exp aenv div 1000 + 3600
               then Some \<lparr>sub = fst (getPublicKeyDetails P (publicKey keyPair)),
                          iat = t_iat aenv div 1000, exp = t_exp aenv div 1000 + 3600\<rparr>
               else None))"
  using authenticate_token [OF assms] by (auto simp add: verifyJWT_generateJWT)

theorem token_subject_is_identifier_witness:
  "(case authenticate MapStorage demo_platform no_faults no_faults demo_keyPair demo_challenge_env
           (demo_auth_env 1735689601000) Map.empty empty_server of
      (Inr jwt, after) \<Rightarrow>
        map_option sub (verifyJWT demo_platform 1735689700000 jwt) =
          Some (fst (getPublicKeyDetails demo_platform (publicKey demo_keyPair)))
    | (Inl e, after) \<Rightarrow> False)"
proof -
  from token_subject_is_identifier [OF demo_authenticate [of MapStorage]]
  have "verifyJWT demo_platform 1735689700000
          (generateJWT demo_platform 1735689601000 1735689601000 (fst demo_details)) =
        Some \<lparr>sub = fst (getPublicKeyDetails demo_platform (publicKey demo_keyPair)),
              iat = 1735689601, exp = 1735693201\<rparr>"
    by (simp add: demo_getOrCreateKey demo_auth_env_def)
  then show ?thesis
    by (simp add: demo_authenticate)
qed

end
